theory Spec2Isabelle
  imports Complex_Main "HOL-Library.Monad_Syntax"
begin

text \<open>
  A shallow embedding of the lyric annotation and card generation pipeline of the
  song-learning application: \<open>extractJSON\<close>, \<open>generateCardsFromLine\<close>, \<open>parseLyrics\<close>,
  \<open>parseLyricsBatch\<close> and \<open>parseSingleLine\<close> of src/lib/ai/services.ts, the steps of
  the import and card generation routes that store their results, and the learning
  progress operations of src/services/cards.service.ts. The completion service, the
  clock and the database are explicit arguments; exceptions are values of a sum type.
\<close>

section \<open>JavaScript values\<close>

text \<open>
  A JavaScript string is a sequence of UTF-16 code units; \<open>text.length\<close>, \<open>text[i]\<close>,
  \<open>indexOf\<close> and \<open>slice\<close> all count code units. A code unit is modelled as a natural
  number and a string as a list of them, so that Japanese lyrics are strings of the model
  too. \<open>js ''abc''\<close> is the string written with ASCII characters; a backslash cannot be
  written inside an Isabelle string literal and appears as the code unit 92
  (\<open>CHR 0x5C\<close>), a double quote is 34.
\<close>

type_synonym code_unit = nat
type_synonym jsstring = "code_unit list"

abbreviation cu :: "char \<Rightarrow> code_unit" where
  "cu c \<equiv> of_char c"

abbreviation js :: "string \<Rightarrow> jsstring" where
  "js s \<equiv> map of_char s"

text \<open>
  The values \<open>JSON.parse\<close> can return. A number is a double: \<open>JNum q\<close> is the finite
  double of value \<open>q\<close> and \<open>JInfinity negative\<close> is one of the two infinite ones, which
  \<open>JSON.parse\<close> returns for a literal beyond the range (see \<open>to_double\<close>). The
  negative zero is not told from zero: the two are equal and both falsy. An object is
  the list of its members in JavaScript's own property order (see \<open>obj_set\<close>).
  \<open>undefined\<close> (a missing property) is \<open>None\<close> of \<open>json option\<close>.
\<close>

datatype json =
    JNull
  | JBool bool
  | JNum rat
  | JInfinity bool
  | JStr jsstring
  | JArr "json list"
  | JObj "(jsstring \<times> json) list"

text \<open>
  ToBoolean: \<open>null\<close>, \<open>false\<close>, the empty string and the number zero are falsy.
\<close>

fun truthy :: "json \<Rightarrow> bool" where
  "truthy JNull = False"
| "truthy (JBool b) = b"
| "truthy (JNum q) = (q \<noteq> 0)"
| "truthy (JInfinity negative) = True"
| "truthy (JStr s) = (s \<noteq> [])"
| "truthy (JArr xs) = True"
| "truthy (JObj ms) = True"

fun truthy_opt :: "json option \<Rightarrow> bool" where
  "truthy_opt None = False"
| "truthy_opt (Some v) = truthy v"

text \<open>
  Reading a property whose name no prototype defines (\<open>lines\<close>, \<open>cards\<close>, \<open>furigana\<close>, ...):
  an object answers with its own member, every other value with \<open>undefined\<close>. Reading a
  property of \<open>null\<close> throws; the callers below only read properties of truthy values.
\<close>

fun get_prop :: "json \<Rightarrow> jsstring \<Rightarrow> json option" where
  "get_prop (JObj ms) k = map_of ms k"
| "get_prop v k = None"

section \<open>JSON.parse\<close>

text \<open>
  \<open>JSON.parse\<close> is a built-in of the language; it is modelled from the JSON grammar of
  ECMA-262 (no reviver): a lexer producing tokens and a push-down automaton over them.
  \<open>None\<close> stands for the \<open>SyntaxError\<close> it throws.
\<close>

datatype token = TLBrace | TRBrace | TLBracket | TRBracket | TColon | TComma | TValue json

definition is_ws :: "code_unit \<Rightarrow> bool" where
  "is_ws c = (c = 9 \<or> c = 10 \<or> c = 13 \<or> c = 32)"

definition is_digit :: "code_unit \<Rightarrow> bool" where
  "is_digit c = (48 \<le> c \<and> c \<le> 57)"

definition hexval :: "code_unit \<Rightarrow> nat option" where
  "hexval c =
     (if 48 \<le> c \<and> c \<le> 57 then Some (c - 48)
      else if 65 \<le> c \<and> c \<le> 70 then Some (c - 55)
      else if 97 \<le> c \<and> c \<le> 102 then Some (c - 87)
      else None)"

fun hex4 :: "jsstring \<Rightarrow> code_unit option" where
  "hex4 [a, b, c, d] =
     (case (hexval a, hexval b, hexval c, hexval d) of
        (Some x, Some y, Some z, Some w) \<Rightarrow> Some (((x * 16 + y) * 16 + z) * 16 + w)
      | _ \<Rightarrow> None)"
| "hex4 _ = None"

definition unescape :: "code_unit \<Rightarrow> code_unit option" where
  "unescape e =
     (if e = 34 then Some 34
      else if e = 92 then Some 92
      else if e = cu CHR ''/'' then Some (cu CHR ''/'')
      else if e = cu CHR ''b'' then Some 8
      else if e = cu CHR ''f'' then Some 12
      else if e = cu CHR ''n'' then Some 10
      else if e = cu CHR ''r'' then Some 13
      else if e = cu CHR ''t'' then Some 9
      else None)"

text \<open>
  The characters of a string literal after its opening quote: the decoded string and the
  text after the closing quote. Control characters below U+0020 are not allowed raw.
\<close>

fun lex_string :: "jsstring \<Rightarrow> jsstring \<Rightarrow> (jsstring \<times> jsstring) option" where
  "lex_string acc [] = None"
| "lex_string acc (c # cs) =
     (if c = 34 then Some (rev acc, cs)
      else if c = 92 then
        (case cs of
           [] \<Rightarrow> None
         | e # cs' \<Rightarrow>
             if e = cu CHR ''u'' then
               (case hex4 (take 4 cs') of
                  Some u \<Rightarrow> lex_string (u # acc) (drop 4 cs')
                | None \<Rightarrow> None)
             else
               (case unescape e of
                  Some x \<Rightarrow> lex_string (x # acc) cs'
                | None \<Rightarrow> None))
      else if c < 32 then None
      else lex_string (c # acc) cs)"

definition digits_value :: "jsstring \<Rightarrow> nat" where
  "digits_value ds = foldl (\<lambda>n d. 10 * n + (d - 48)) 0 ds"

text \<open>
  The double nearest to the fraction \<open>n / d\<close> (with \<open>d\<close> positive), ties going to the even
  significand, as IEEE 754 and ECMA-262 round the value of a literal; \<open>None\<close> when the
  result is infinite. \<open>bit_length n\<close> is the number of binary digits of \<open>n\<close>,
  \<open>scaled n d p\<close> is the fraction \<open>n / (d * 2^p)\<close>, \<open>binary_exponent n d\<close> is the
  exponent \<open>e\<close> with \<open>2^e \<le> n / d < 2^(e + 1)\<close>. A double has 53 significant bits and
  its last bit weighs at least \<open>2^-1074\<close>; the largest is below \<open>2^1024\<close>.
\<close>

fun bit_length :: "nat \<Rightarrow> nat" where
  "bit_length n = (if n = 0 then 0 else 1 + bit_length (n div 2))"

declare bit_length.simps [simp del]

definition scaled :: "nat \<Rightarrow> nat \<Rightarrow> int \<Rightarrow> nat \<times> nat" where
  "scaled n d p = (if 0 \<le> p then (n, d * 2 ^ nat p) else (n * 2 ^ nat (- p), d))"

definition binary_exponent :: "nat \<Rightarrow> nat \<Rightarrow> int" where
  "binary_exponent n d =
     (let k = int (bit_length n) - int (bit_length d)
      in case scaled n d k of (a, b) \<Rightarrow> if b \<le> a then k else k - 1)"

definition round_half_even :: "nat \<Rightarrow> nat \<Rightarrow> nat" where
  "round_half_even a b =
     (let f = a div b; r = a mod b
      in if 2 * r < b then f else if b < 2 * r then f + 1 else if even f then f else f + 1)"

definition to_double :: "nat \<Rightarrow> nat \<Rightarrow> rat option" where
  "to_double n d =
     (if n = 0 then Some 0
      else
        (let e = binary_exponent n d;
             p = max (e - 52) (- 1074);
             m = (case scaled n d p of (a, b) \<Rightarrow> round_half_even a b)
         in if 1023 < e \<or> (e = 1023 \<and> m = 2 ^ 53) then None
            else Some (of_nat m * (if 0 \<le> p then 2 ^ nat p else 1 / 2 ^ nat (- p)))))"

text \<open>The number of a literal with sign, decimal digits \<open>m\<close> and decimal exponent \<open>e\<close>.\<close>

definition number_value :: "bool \<Rightarrow> nat \<Rightarrow> int \<Rightarrow> json" where
  "number_value negative m e =
     (case (if 0 \<le> e then to_double (m * 10 ^ nat e) 1 else to_double m (10 ^ nat (- e))) of
        None \<Rightarrow> JInfinity negative
      | Some q \<Rightarrow> JNum (if negative then - q else q))"

text \<open>
  Defining a property on an object. JavaScript keeps the own properties of an object in
  this order: the array indices (canonical decimal numerals up to \<open>2^32 - 2\<close>) in
  ascending numeric order, then the other keys in the order of their creation. A key
  that is already present keeps its place and takes the new value.
\<close>

definition is_array_index :: "jsstring \<Rightarrow> bool" where
  "is_array_index k =
     (k \<noteq> [] \<and> list_all is_digit k \<and> (if hd k = 48 then length k = 1 else True)
      \<and> digits_value k \<le> 4294967294)"

definition comes_before :: "jsstring \<Rightarrow> jsstring \<Rightarrow> bool" where
  "comes_before k k' =
     (is_array_index k \<and> (if is_array_index k' then digits_value k < digits_value k' else True))"

fun obj_set :: "(jsstring \<times> json) list \<Rightarrow> jsstring \<Rightarrow> json \<Rightarrow> (jsstring \<times> json) list" where
  "obj_set [] k v = [(k, v)]"
| "obj_set ((k', v') # ms) k v =
     (if k' = k then (k, v) # ms
      else if comes_before k k' then (k, v) # (k', v') # ms
      else (k', v') # obj_set ms k v)"

text \<open>
  A number literal: \<open>-? (0 | [1-9][0-9]*) (. [0-9]+)? ([eE] [+-]? [0-9]+)?\<close>, and the
  double nearest to its value.
\<close>

definition parse_exponent :: "jsstring \<Rightarrow> int option" where
  "parse_exponent s =
     (case s of
        [] \<Rightarrow> Some 0
      | c # r \<Rightarrow>
          if c = cu CHR ''e'' \<or> c = cu CHR ''E'' then
            (let neg = (case r of [] \<Rightarrow> False | d # _ \<Rightarrow> d = cu CHR ''-'');
                 ds = (case r of [] \<Rightarrow> []
                       | d # r' \<Rightarrow> if d = cu CHR ''-'' \<or> d = cu CHR ''+'' then r' else r)
             in if ds \<noteq> [] \<and> list_all is_digit ds
                then Some (if neg then - int (digits_value ds) else int (digits_value ds))
                else None)
          else None)"

definition parse_number :: "jsstring \<Rightarrow> json option" where
  "parse_number s =
     (let neg = (case s of [] \<Rightarrow> False | c # _ \<Rightarrow> c = cu CHR ''-'');
          s1 = (if neg then tl s else s);
          ip = takeWhile is_digit s1;
          s2 = dropWhile is_digit s1;
          has_frac = (case s2 of [] \<Rightarrow> False | c # _ \<Rightarrow> c = cu CHR ''.'');
          fp = (if has_frac then takeWhile is_digit (tl s2) else []);
          s3 = (if has_frac then dropWhile is_digit (tl s2) else s2)
      in if ip = [] \<or> (hd ip = 48 \<and> length ip \<noteq> 1) \<or> (has_frac \<and> fp = []) then None
         else
           (case parse_exponent s3 of
              None \<Rightarrow> None
            | Some e \<Rightarrow>
                Some (number_value neg (digits_value (ip @ fp)) (e - int (length fp)))))"

definition is_num_char :: "code_unit \<Rightarrow> bool" where
  "is_num_char c =
     (is_digit c \<or> c = cu CHR ''-'' \<or> c = cu CHR ''+'' \<or> c = cu CHR ''.''
      \<or> c = cu CHR ''e'' \<or> c = cu CHR ''E'')"

text \<open>
  The lexer. A number is the longest run of number characters, checked against the
  number grammar as a whole: in a valid text a number is followed by white space, a
  comma or a closing bracket, never by another number character.
\<close>

function lex :: "jsstring \<Rightarrow> token list option" where
  "lex [] = Some []"
| "lex (c # cs) =
     (if is_ws c then lex cs
      else if c = cu CHR ''{'' then map_option (Cons TLBrace) (lex cs)
      else if c = cu CHR ''}'' then map_option (Cons TRBrace) (lex cs)
      else if c = cu CHR ''['' then map_option (Cons TLBracket) (lex cs)
      else if c = cu CHR '']'' then map_option (Cons TRBracket) (lex cs)
      else if c = cu CHR '':'' then map_option (Cons TColon) (lex cs)
      else if c = cu CHR '','' then map_option (Cons TComma) (lex cs)
      else if c = 34 then
        (case lex_string [] cs of
           None \<Rightarrow> None
         | Some (s, rest) \<Rightarrow> map_option (Cons (TValue (JStr s))) (lex rest))
      else if take 4 (c # cs) = js ''true'' then
        map_option (Cons (TValue (JBool True))) (lex (drop 3 cs))
      else if take 5 (c # cs) = js ''false'' then
        map_option (Cons (TValue (JBool False))) (lex (drop 4 cs))
      else if take 4 (c # cs) = js ''null'' then
        map_option (Cons (TValue JNull)) (lex (drop 3 cs))
      else if is_num_char c then
        (case parse_number (takeWhile is_num_char (c # cs)) of
           None \<Rightarrow> None
         | Some v \<Rightarrow> map_option (Cons (TValue v)) (lex (dropWhile is_num_char cs)))
      else None)"
  by pat_completeness auto
termination
proof (relation "measure length", goal_cases)
  case 1
  show ?case by simp
next
  case (9 c cs x2 s rest)
  have shorter: "lex_string acc ds = Some (t, r) \<Longrightarrow> length r < Suc (length ds)"
    for acc ds t r
    proof (induction acc ds rule: lex_string.induct)
      case (1 acc)
      then show ?case by simp
    next
      case (2 acc c cs)
      show ?case
      proof (cases "c = 34")
        case True
        with 2 show ?thesis by simp
      next
        case c34: False
        show ?thesis
        proof (cases "c = 92")
          case True
          show ?thesis
          proof (cases cs)
            case Nil
            with 2(4) c34 True show ?thesis by simp
          next
            case (Cons e cs')
            show ?thesis
            proof (cases "e = cu CHR ''u''")
              case eu: True
              show ?thesis
              proof (cases "hex4 (take 4 cs')")
                case None
                with 2(4) c34 True Cons eu show ?thesis by simp
              next
                case (Some u)
                with 2(4) c34 True Cons eu have "lex_string (u # acc) (drop 4 cs') = Some (t, r)" by simp
                from 2(1)[OF c34 True Cons eu Some this] Cons show ?thesis by simp
              qed
            next
              case eu: False
              show ?thesis
              proof (cases "unescape e")
                case None
                with 2(4) c34 True Cons eu show ?thesis by simp
              next
                case (Some x)
                with 2(4) c34 True Cons eu have "lex_string (x # acc) cs' = Some (t, r)" by simp
                from 2(2)[OF c34 True Cons eu Some this] Cons show ?thesis by simp
              qed
            qed
          qed
        next
          case False
          with 2(4) c34 have *: "\<not> c < 32" "lex_string (c # acc) cs = Some (t, r)" by (simp_all split: if_splits)
          from 2(3)[OF c34 False *] show ?thesis by simp
        qed
      qed
    qed
  from 9 show ?case using shorter [of "[]" cs s rest] by simp
next
  case (13 c cs q)
  then show ?case using length_dropWhile_le [of is_num_char cs] by simp
qed simp_all

text \<open>
  The automaton. The stack holds the containers being built; \<open>FKey k\<close> sits above the
  object whose member \<open>k\<close> is waiting for its value.
\<close>

datatype frame = FArr "json list" | FObj "(jsstring \<times> json) list" | FKey jsstring

datatype pmode = PValue | PValueOrClose | PKeyOrClose | PKey | PColon | PAfter | PDone json

fun complete :: "json \<Rightarrow> frame list \<Rightarrow> (pmode \<times> frame list) option" where
  "complete v [] = Some (PDone v, [])"
| "complete v (FArr xs # st) = Some (PAfter, FArr (v # xs) # st)"
| "complete v (FKey k # FObj ms # st) = Some (PAfter, FObj (obj_set ms k v) # st)"
| "complete v _ = None"

fun value_start :: "token \<Rightarrow> frame list \<Rightarrow> (pmode \<times> frame list) option" where
  "value_start (TValue v) st = complete v st"
| "value_start TLBracket st = Some (PValueOrClose, FArr [] # st)"
| "value_start TLBrace st = Some (PKeyOrClose, FObj [] # st)"
| "value_start _ st = None"

fun close_arr :: "frame list \<Rightarrow> (pmode \<times> frame list) option" where
  "close_arr (FArr xs # st) = complete (JArr (rev xs)) st"
| "close_arr _ = None"

fun close_obj :: "frame list \<Rightarrow> (pmode \<times> frame list) option" where
  "close_obj (FObj ms # st) = complete (JObj ms) st"
| "close_obj _ = None"

fun key_start :: "token \<Rightarrow> frame list \<Rightarrow> (pmode \<times> frame list) option" where
  "key_start (TValue (JStr k)) st = Some (PColon, FKey k # st)"
| "key_start _ st = None"

fun after_value :: "token \<Rightarrow> frame list \<Rightarrow> (pmode \<times> frame list) option" where
  "after_value TComma (FArr xs # st) = Some (PValue, FArr xs # st)"
| "after_value TComma (FObj ms # st) = Some (PKey, FObj ms # st)"
| "after_value TRBracket st = close_arr st"
| "after_value TRBrace st = close_obj st"
| "after_value _ st = None"

fun pstep :: "pmode \<Rightarrow> token \<Rightarrow> frame list \<Rightarrow> (pmode \<times> frame list) option" where
  "pstep PValue t st = value_start t st"
| "pstep PValueOrClose t st = (if t = TRBracket then close_arr st else value_start t st)"
| "pstep PKeyOrClose t st = (if t = TRBrace then close_obj st else key_start t st)"
| "pstep PKey t st = key_start t st"
| "pstep PColon t st = (if t = TColon then Some (PValue, st) else None)"
| "pstep PAfter t st = after_value t st"
| "pstep (PDone v) t st = None"

fun prun :: "token list \<Rightarrow> pmode \<Rightarrow> frame list \<Rightarrow> json option" where
  "prun [] (PDone v) [] = Some v"
| "prun [] m st = None"
| "prun (t # ts) m st =
     (case pstep m t st of None \<Rightarrow> None | Some (m', st') \<Rightarrow> prun ts m' st')"

definition JSON_parse :: "jsstring \<Rightarrow> json option" where
  "JSON_parse text = (case lex text of None \<Rightarrow> None | Some ts \<Rightarrow> prun ts PValue [])"

section \<open>extractJSON (src/lib/ai/services.ts)\<close>

fun indexOf :: "jsstring \<Rightarrow> code_unit \<Rightarrow> nat option" where
  "indexOf [] c = None"
| "indexOf (x # xs) c = (if x = c then Some 0 else map_option Suc (indexOf xs c))"

definition slice :: "'a list \<Rightarrow> nat \<Rightarrow> nat \<Rightarrow> 'a list" where
  "slice xs a b = take (b - a) (drop a xs)"

text \<open>
  The \<open>for\<close> loop of \<open>extractJSON\<close>, at index \<open>i\<close> with the text from \<open>i\<close> on as its second
  argument. The loop leaves the function at the first closing brace that brings
  \<open>braceCount\<close> back to zero; \<open>scanBraces\<close> returns that index, and \<open>None\<close> when the loop
  runs to the end of the text ("Incomplete JSON in response").
\<close>

fun scanBraces :: "nat \<Rightarrow> jsstring \<Rightarrow> int \<Rightarrow> bool \<Rightarrow> bool \<Rightarrow> nat option" where
  "scanBraces i [] braceCount inString escapeNext = None"
| "scanBraces i (char # rest) braceCount inString escapeNext =
     (if escapeNext then scanBraces (i + 1) rest braceCount inString False
      else if char = 92 \<and> inString then scanBraces (i + 1) rest braceCount inString True
      else if char = 34 then scanBraces (i + 1) rest braceCount (\<not> inString) False
      else if inString then scanBraces (i + 1) rest braceCount inString False
      else
        (let braceCount' = (if char = cu CHR ''{'' then braceCount + 1 else braceCount)
         in if char = cu CHR ''}'' then
              (if braceCount' - 1 = 0 then Some i
               else scanBraces (i + 1) rest (braceCount' - 1) inString False)
            else scanBraces (i + 1) rest braceCount' inString False))"

text \<open>
  \<open>extractJSON\<close> returns the parsed value, or \<open>null\<close>: \<open>JNull\<close> is both the failure signal
  and what a text that is the JSON literal \<open>null\<close> parses to, as in the source.
\<close>

definition extractJSON :: "jsstring \<Rightarrow> json" where
  "extractJSON text =
     (case JSON_parse text of
        Some v \<Rightarrow> v
      | None \<Rightarrow>
          (case indexOf text (cu CHR ''{'') of
             None \<Rightarrow> JNull
           | Some startIndex \<Rightarrow>
               (case scanBraces startIndex (drop startIndex text) 0 False False of
                  None \<Rightarrow> JNull
                | Some i \<Rightarrow>
                    (case JSON_parse (slice text startIndex (i + 1)) of
                       Some v \<Rightarrow> v
                     | None \<Rightarrow> JNull))))"

section \<open>The completion service\<close>

text \<open>
  The outcome of one \<open>await openai.chat.completions.create(...)\<close>: the call throws
  (network, HTTP or credential error), or it returns a completion whose
  \<open>choices[0]?.message?.content\<close> is a string or is missing. A completion without a
  \<open>choices\<close> array makes that expression throw inside the same \<open>try\<close> block and counts as
  \<open>Rejected\<close>. The functions below are the paths taken when \<open>isMockMode()\<close> is false; the
  mock branch replaces the service by a test double and is not part of this development.
\<close>

datatype completion = Rejected | Completion "jsstring option"

datatype error =
  CardGenerationFailed | LyricsParsingFailed | LineParsingFailed | TypeError | DatabaseError

text \<open>\<open>completion.choices[0]?.message?.content || ''\<close>\<close>

fun content_text :: "jsstring option \<Rightarrow> jsstring" where
  "content_text None = []"
| "content_text (Some s) = s"

section \<open>generateCardsFromLine (src/lib/ai/services.ts)\<close>

text \<open>
  The function returns what \<open>parsed.cards || []\<close> evaluates to: the declared type says an
  array of cards, the value is whatever the reply holds under \<open>cards\<close>. Every exception
  of the \<open>try\<close> block, the one thrown for \<open>!parsed\<close> included, is replaced by the error
  "card generation failed".
\<close>

definition generateCardsFromLine :: "completion \<Rightarrow> error + json" where
  "generateCardsFromLine reply =
     (case reply of
        Rejected \<Rightarrow> Inl CardGenerationFailed
      | Completion content \<Rightarrow>
          (let text = content_text content;
               parsed = extractJSON text
           in if \<not> truthy parsed then Inl CardGenerationFailed
              else Inr (case get_prop parsed (js ''cards'') of
                          None \<Rightarrow> JArr []
                        | Some cards \<Rightarrow> if truthy cards then cards else JArr [])))"

section \<open>parseLyrics and parseLyricsBatch (src/lib/ai/services.ts)\<close>

definition batchSize :: nat where
  "batchSize = 8"

text \<open>The decimal name of an array index, as a property key.\<close>

fun dec :: "nat \<Rightarrow> jsstring" where
  "dec n = (if n < 10 then [48 + n] else dec (n div 10) @ [48 + n mod 10])"

declare dec.simps [simp del]

text \<open>
  The own enumerable properties that \<open>{...line}\<close> copies: the members of an object, the
  indexed elements of an array or of a string, nothing for a number, a boolean or
  \<open>null\<close>.
\<close>

fun spread :: "json \<Rightarrow> (jsstring \<times> json) list" where
  "spread (JObj ms) = ms"
| "spread (JArr xs) = zip (map dec [0..<length xs]) xs"
| "spread (JStr s) = zip (map dec [0..<length s]) (map (\<lambda>c. JStr [c]) s)"
| "spread v = []"

text \<open>\<open>lines.map((line, i) => ({ ...line, lineNumber: startIndex + i + 1 }))\<close>\<close>

definition renumber :: "nat \<Rightarrow> json list \<Rightarrow> json list" where
  "renumber startIndex lines =
     map (\<lambda>(i, line). JObj (obj_set (spread line) (js ''lineNumber'')
                                 (JNum (of_nat (startIndex + i + 1)))))
         (enumerate 0 lines)"

text \<open>
  One batch. \<open>llm\<close> is the service's answer to the prompt built from the lines of the
  batch. A truthy \<open>lines\<close> that is not an array has no \<open>map\<close> method: the \<open>TypeError\<close> is
  caught with every other exception and rethrown as "lyrics parsing failed".
\<close>

definition parseLyricsBatch ::
  "(jsstring list \<Rightarrow> completion) \<Rightarrow> jsstring list \<Rightarrow> nat \<Rightarrow> error + json list" where
  "parseLyricsBatch llm lyrics startIndex =
     (case llm lyrics of
        Rejected \<Rightarrow> Inl LyricsParsingFailed
      | Completion content \<Rightarrow>
          (let text = content_text content;
               parsed = extractJSON text
           in if \<not> truthy parsed then Inl LyricsParsingFailed
              else
                (case get_prop parsed (js ''lines'') of
                   None \<Rightarrow> Inr (renumber startIndex [])
                 | Some (JArr lines) \<Rightarrow> Inr (renumber startIndex lines)
                 | Some v \<Rightarrow>
                     if truthy v then Inl LyricsParsingFailed
                     else Inr (renumber startIndex []))))"

text \<open>The record pushed for line \<open>j\<close> of a batch whose call failed.\<close>

definition placeholder :: "nat \<Rightarrow> jsstring \<Rightarrow> json" where
  "placeholder lineNumber contentJa =
     JObj [(js ''lineNumber'', JNum (of_nat lineNumber)),
           (js ''contentJa'', JStr contentJa),
           (js ''contentZh'', JStr []),
           (js ''furigana'', JStr (js ''[]'')),
           (js ''tokens'', JStr (js ''[]''))]"

definition placeholders :: "jsstring list \<Rightarrow> nat \<Rightarrow> json list" where
  "placeholders batch batchStartIndex =
     map (\<lambda>j. placeholder (batchStartIndex + j + 1) (batch ! j)) [0..<length batch]"

text \<open>
  The loop of \<open>parseLyrics\<close>, at index \<open>i\<close> with the results pushed so far. \<open>service i\<close> is
  the answer of the completion service to the call made for the batch that starts at
  index \<open>i\<close>; the batches are requested one after the other.
\<close>

function parseLyrics_loop ::
  "(nat \<Rightarrow> jsstring list \<Rightarrow> completion) \<Rightarrow> jsstring list \<Rightarrow> nat \<Rightarrow> json list \<Rightarrow> json list" where
  "parseLyrics_loop service lyrics i results =
     (if i < length lyrics then
        (let batch = slice lyrics i (i + batchSize);
             batchStartIndex = i
         in parseLyrics_loop service lyrics (i + batchSize)
              (results @
                 (case parseLyricsBatch (service i) batch batchStartIndex of
                    Inr batchResults \<Rightarrow> batchResults
                  | Inl e \<Rightarrow> placeholders batch batchStartIndex)))
      else results)"
  by pat_completeness auto
termination
  by (relation "measure (\<lambda>(service, lyrics, i, results). length lyrics - i)")
     (auto simp: batchSize_def)

declare parseLyrics_loop.simps [simp del]

definition parseLyrics :: "(nat \<Rightarrow> jsstring list \<Rightarrow> completion) \<Rightarrow> jsstring list \<Rightarrow> json list" where
  "parseLyrics service lyrics = parseLyrics_loop service lyrics 0 []"

section \<open>parseSingleLine (src/lib/ai/services.ts)\<close>

record single_line =
  sl_contentZh :: json
  sl_furigana :: json
  sl_tokens :: json

text \<open>
  \<open>result.contentZh || ''\<close>, and \<open>Array.isArray(x) ? x : []\<close> for the two lists. Every
  exception of the \<open>try\<close> block is rethrown as "line parsing failed".
\<close>

definition or_empty_string :: "json option \<Rightarrow> json" where
  "or_empty_string v = (case v of None \<Rightarrow> JStr [] | Some x \<Rightarrow> if truthy x then x else JStr [])"

fun array_or_empty :: "json option \<Rightarrow> json" where
  "array_or_empty (Some (JArr xs)) = JArr xs"
| "array_or_empty v = JArr []"

definition parseSingleLine :: "completion \<Rightarrow> error + single_line" where
  "parseSingleLine reply =
     (case reply of
        Rejected \<Rightarrow> Inl LineParsingFailed
      | Completion content \<Rightarrow>
          (let text = content_text content;
               result = extractJSON text
           in if \<not> truthy result then Inl LineParsingFailed
              else Inr \<lparr>sl_contentZh = or_empty_string (get_prop result (js ''contentZh'')),
                        sl_furigana = array_or_empty (get_prop result (js ''furigana'')),
                        sl_tokens = array_or_empty (get_prop result (js ''tokens''))\<rparr>))"

section \<open>Storing the annotation (POST of src/app/api/songs/import/route.ts, step 3)\<close>

text \<open>
  For the created line at position \<open>index\<close> the route reads \<open>aiParsed[index]\<close> and, when
  there is one, decodes its \<open>furigana\<close> string and hands the result to \<open>updateLine\<close>
  together with \<open>contentZh\<close>. \<open>furiganaArray\<close> stays \<open>undefined\<close> when \<open>furigana\<close> is falsy,
  is the string \<open>[]\<close>, or does not parse (the exception is caught and logged).
  \<open>JSON.parse\<close> applied to a value that is not a string first converts it with
  JavaScript's \<open>ToString\<close>, which is a parameter here.
\<close>

definition furiganaArray :: "(json \<Rightarrow> jsstring) \<Rightarrow> json \<Rightarrow> json option" where
  "furiganaArray toString parsed =
     (case get_prop parsed (js ''furigana'') of
        None \<Rightarrow> None
      | Some f \<Rightarrow>
          if truthy f \<and> f \<noteq> JStr (js ''[]'')
          then JSON_parse (case f of JStr s \<Rightarrow> s | _ \<Rightarrow> toString f)
          else None)"

record line_update =
  contentZh :: "json option"
  furigana :: "json option"

text \<open>
  The argument of \<open>updateLine\<close> for each created line, in order; \<open>None\<close> where \<open>aiParsed\<close>
  has no entry at that index, or a falsy one (\<open>if (parsed)\<close>), and the line is left as
  created.
\<close>

definition import_line_updates ::
  "(json \<Rightarrow> jsstring) \<Rightarrow> json list \<Rightarrow> nat \<Rightarrow> line_update option list" where
  "import_line_updates toString aiParsed n =
     map (\<lambda>index.
            if index < length aiParsed \<and> truthy (aiParsed ! index) then
              (let parsed = aiParsed ! index
               in Some \<lparr>contentZh = get_prop parsed (js ''contentZh''),
                         furigana = furiganaArray toString parsed\<rparr>)
            else None)
         [0..<n]"

text \<open>
  The bound the specification asks of a stored span: \<open>0 \<le> start < end \<le> length contentJa\<close>.
\<close>

definition span_in_bounds :: "jsstring \<Rightarrow> json \<Rightarrow> bool" where
  "span_in_bounds contentJa item =
     (case (get_prop item (js ''start''), get_prop item (js ''end'')) of
        (Some (JNum s), Some (JNum e)) \<Rightarrow> 0 \<le> s \<and> s < e \<and> e \<le> of_nat (length contentJa)
      | _ \<Rightarrow> False)"

fun furigana_in_bounds :: "jsstring \<Rightarrow> json option \<Rightarrow> bool" where
  "furigana_in_bounds contentJa None = True"
| "furigana_in_bounds contentJa (Some (JArr spans)) = list_all (span_in_bounds contentJa) spans"
| "furigana_in_bounds contentJa (Some v) = False"

section \<open>Part of speech and card creation\<close>

definition validPartOfSpeech :: "jsstring list" where
  "validPartOfSpeech =
     [js ''noun'', js ''verb'', js ''adjective'', js ''adverb'', js ''particle'', js ''other'']"

text \<open>
  \<open>toLowerCase\<close> on the letters A to Z. JavaScript also maps letters outside ASCII; none
  of them becomes a string of the ASCII names compared below, so the comparisons agree.
\<close>

definition toLowerCase :: "jsstring \<Rightarrow> jsstring" where
  "toLowerCase s = map (\<lambda>c. if 65 \<le> c \<and> c \<le> 90 then c + 32 else c) s"

text \<open>
  \<open>normalizePartOfSpeech\<close> of the import route. Its parameter is declared
  \<open>string | undefined\<close>; the argument is \<open>card.partOfSpeech\<close> of the reply, and a truthy
  value that is not a string has no \<open>toLowerCase\<close> method.
\<close>

definition normalizePartOfSpeech :: "json option \<Rightarrow> error + jsstring" where
  "normalizePartOfSpeech pos =
     (if \<not> truthy_opt pos then Inr (js ''other'')
      else
        (case pos of
           Some (JStr p) \<Rightarrow>
             (let lowered = toLowerCase p
              in if lowered \<in> set validPartOfSpeech then Inr lowered
                 else if lowered = js ''pronoun'' \<or> lowered = js ''pron'' then Inr (js ''other'')
                 else if lowered = js ''conjunction'' \<or> lowered = js ''conj'' then Inr (js ''other'')
                 else if lowered = js ''preposition'' \<or> lowered = js ''prep'' then Inr (js ''particle'')
                 else if lowered = js ''interjection'' \<or> lowered = js ''interj'' then Inr (js ''other'')
                 else Inr (js ''other''))
         | _ \<Rightarrow> Inl TypeError))"

text \<open>The line a card is generated from, and the argument of \<open>createCard\<close>.\<close>

record line_row =
  line_id :: jsstring
  line_contentJa :: jsstring
  line_contentZh :: "jsstring option"

record CreateCardInput =
  lineId :: jsstring
  word :: "json option"
  reading :: "json option"
  meaning :: "json option"
  partOfSpeech :: "json option"
  exampleSentence :: jsstring
  exampleTranslation :: "jsstring option"
  wordPosition :: "json option"

text \<open>\<open>line.contentZh || undefined\<close>\<close>

definition or_undefined :: "jsstring option \<Rightarrow> jsstring option" where
  "or_undefined s = (case s of None \<Rightarrow> None | Some t \<Rightarrow> if t = [] then None else Some t)"

text \<open>
  \<open>createCard\<close> of src/services/cards.service.ts inserts its input with
  \<open>partOfSpeech: input.partOfSpeech || 'other'\<close>: this is the argument of \<open>.values(...)\<close>.
  (\<open>audioClipUrl\<close> is never supplied by the two routes and stays \<open>NULL\<close>.)
\<close>

definition createCard_values :: "CreateCardInput \<Rightarrow> CreateCardInput" where
  "createCard_values input =
     input\<lparr>partOfSpeech :=
             (if truthy_opt (partOfSpeech input) then partOfSpeech input else Some (JStr (js ''other'')))\<rparr>"

text \<open>
  The \<open>cards\<close> table (src/db/schema.ts and the migration): \<open>line_id\<close> references \<open>lines\<close>,
  \<open>word\<close> is \<open>varchar(100) NOT NULL\<close>, \<open>reading\<close> is \<open>varchar(100)\<close>, \<open>meaning\<close> is
  \<open>text NOT NULL\<close>, \<open>part_of_speech\<close> is the enum of six labels, the example columns are
  \<open>text\<close> and \<open>word_position\<close> is \<open>jsonb\<close>. A stored row is a \<open>Card\<close>; its generated \<open>id\<close>
  and \<open>created_at\<close> are left out, and the table is the list of its rows.
\<close>

record Card =
  card_lineId :: jsstring
  card_word :: jsstring
  card_reading :: "jsstring option"
  card_meaning :: jsstring
  card_partOfSpeech :: "jsstring option"
  card_exampleSentence :: "jsstring option"
  card_exampleTranslation :: "jsstring option"
  card_wordPosition :: "json option"

record card_store =
  cs_lines :: "jsstring set"
  cs_cards :: "Card list"

definition partOfSpeechEnum :: "jsstring list" where
  "partOfSpeechEnum =
     [js ''noun'', js ''verb'', js ''adjective'', js ''adverb'', js ''particle'', js ''other'']"

text \<open>
  How a JavaScript value reaches the server is the business of the database driver, a
  parameter here: \<open>to_text\<close> gives the text the server receives for a value bound to a
  text, varchar or enum column, \<open>to_jsonb\<close> the value it stores for a \<open>jsonb\<close> column;
  \<open>None\<close> when the value is refused on the way. \<open>undefined\<close> and \<open>null\<close> are sent as
  \<open>NULL\<close>.
\<close>

record driver =
  to_text :: "json \<Rightarrow> jsstring option"
  to_jsonb :: "json \<Rightarrow> json option"

datatype bound = SqlNull | SqlText jsstring | Refused

fun bind_text :: "driver \<Rightarrow> json option \<Rightarrow> bound" where
  "bind_text drv None = SqlNull"
| "bind_text drv (Some JNull) = SqlNull"
| "bind_text drv (Some v) = (case to_text drv v of None \<Rightarrow> Refused | Some t \<Rightarrow> SqlText t)"

fun bind_jsonb :: "driver \<Rightarrow> json option \<Rightarrow> json option option" where
  "bind_jsonb drv None = Some None"
| "bind_jsonb drv (Some JNull) = Some None"
| "bind_jsonb drv (Some v) = (case to_jsonb drv v of None \<Rightarrow> None | Some j \<Rightarrow> Some (Some j))"

text \<open>
  \<open>varchar(n)\<close> counts characters, a surrogate pair being one. PostgreSQL refuses a
  longer text, unless the characters in excess are all spaces, which it cuts off.
  \<open>split_chars n t\<close> is the first \<open>n\<close> characters of \<open>t\<close> and the rest.
\<close>

definition is_high_surrogate :: "code_unit \<Rightarrow> bool" where
  "is_high_surrogate c = (55296 \<le> c \<and> c \<le> 56319)"

definition is_low_surrogate :: "code_unit \<Rightarrow> bool" where
  "is_low_surrogate c = (56320 \<le> c \<and> c \<le> 57343)"

fun split_chars :: "nat \<Rightarrow> jsstring \<Rightarrow> jsstring \<times> jsstring" where
  "split_chars n [] = ([], [])"
| "split_chars n [a] = (if n = 0 then ([], [a]) else ([a], []))"
| "split_chars n (a # b # r) =
     (if n = 0 then ([], a # b # r)
      else if is_high_surrogate a \<and> is_low_surrogate b then
        (case split_chars (n - 1) r of (kept, excess) \<Rightarrow> (a # b # kept, excess))
      else
        (case split_chars (n - 1) (b # r) of (kept, excess) \<Rightarrow> (a # kept, excess)))"

fun varchar :: "nat \<Rightarrow> bound \<Rightarrow> bound" where
  "varchar n (SqlText t) =
     (case split_chars n t of
        (kept, excess) \<Rightarrow> if list_all (\<lambda>c. c = 32) excess then SqlText kept else Refused)"
| "varchar n b = b"

fun enum_label :: "jsstring list \<Rightarrow> bound \<Rightarrow> bound" where
  "enum_label labels (SqlText t) = (if t \<in> set labels then SqlText t else Refused)"
| "enum_label labels b = b"

text \<open>A \<open>NOT NULL\<close> column needs a text; a nullable one takes \<open>NULL\<close> too.\<close>

fun required :: "bound \<Rightarrow> jsstring option" where
  "required (SqlText t) = Some t"
| "required b = None"

fun nullable :: "bound \<Rightarrow> jsstring option option" where
  "nullable SqlNull = Some None"
| "nullable (SqlText t) = Some (Some t)"
| "nullable Refused = None"

text \<open>The row the table stores for the values of an insert, \<open>None\<close> when it rejects them.\<close>

definition card_row :: "driver \<Rightarrow> CreateCardInput \<Rightarrow> Card option" where
  "card_row drv v =
     do {
       w \<leftarrow> required (varchar 100 (bind_text drv (word v)));
       r \<leftarrow> nullable (varchar 100 (bind_text drv (reading v)));
       m \<leftarrow> required (bind_text drv (meaning v));
       p \<leftarrow> nullable (enum_label partOfSpeechEnum (bind_text drv (partOfSpeech v)));
       es \<leftarrow> nullable (bind_text drv (Some (JStr (exampleSentence v))));
       et \<leftarrow> nullable (bind_text drv (map_option JStr (exampleTranslation v)));
       wp \<leftarrow> bind_jsonb drv (wordPosition v);
       Some \<lparr>card_lineId = lineId v, card_word = w, card_reading = r, card_meaning = m,
             card_partOfSpeech = p, card_exampleSentence = es, card_exampleTranslation = et,
             card_wordPosition = wp\<rparr>
     }"

text \<open>
  \<open>createCard\<close>: the insert and its \<open>returning()\<close> row. The awaited statement throws when
  the line does not exist or the table rejects the values.
\<close>

definition createCard :: "driver \<Rightarrow> card_store \<Rightarrow> CreateCardInput \<Rightarrow> error + card_store \<times> Card" where
  "createCard drv store input =
     (let vals = createCard_values input
      in if lineId vals \<in> cs_lines store then
           (case card_row drv vals of
              None \<Rightarrow> Inl DatabaseError
            | Some row \<Rightarrow> Inr (store\<lparr>cs_cards := cs_cards store @ [row]\<rparr>, row))
         else Inl DatabaseError)"

text \<open>
  \<open>xs.slice(0, n)\<close> for an integral \<open>n\<close>: a negative end counts from the end of the array.
\<close>

definition slice0 :: "'a list \<Rightarrow> int \<Rightarrow> 'a list" where
  "slice0 xs n = (if n < 0 then take (nat (int (length xs) + n)) xs else take (nat n) xs)"

text \<open>
  \<open>await Promise.all(array.map(card => createCard({...})))\<close>. The cards are taken in
  order; for each the argument is built and \<open>createCard\<close> is called, which issues its
  insert whether or not another one fails. An exception raised while an argument is
  built ends the \<open>map\<close> at once, before \<open>Promise.all\<close>, so it is the one the route
  catches; otherwise the route catches the rejected insert, or receives the stored rows
  in the order of the cards. The result is the table afterwards, the values handed to
  the table, and that outcome.
\<close>

fun save_cards ::
  "driver \<Rightarrow> (json \<Rightarrow> error + CreateCardInput) \<Rightarrow> card_store \<Rightarrow> json list
     \<Rightarrow> card_store \<times> CreateCardInput list \<times> (error + Card list)" where
  "save_cards drv f store [] = (store, [], Inr [])"
| "save_cards drv f store (x # xs) =
     (case f x of
        Inl e \<Rightarrow> (store, [], Inl e)
      | Inr input \<Rightarrow>
          (case createCard drv store input of
             Inl e \<Rightarrow>
               (case save_cards drv f store xs of
                  (store', handed, outcome) \<Rightarrow>
                    (store', createCard_values input # handed,
                     (case outcome of Inl e' \<Rightarrow> Inl e' | Inr rows \<Rightarrow> Inl e)))
           | Inr (store1, row) \<Rightarrow>
               (case save_cards drv f store1 xs of
                  (store', handed, outcome) \<Rightarrow>
                    (store', createCard_values input # handed,
                     (case outcome of Inl e' \<Rightarrow> Inl e' | Inr rows \<Rightarrow> Inr (row # rows))))))"

text \<open>The argument built for one card by the import route (step 4).\<close>

definition import_card_input :: "line_row \<Rightarrow> json \<Rightarrow> error + CreateCardInput" where
  "import_card_input line candidate =
     (if candidate = JNull then Inl TypeError
      else
        (case normalizePartOfSpeech (get_prop candidate (js ''partOfSpeech'')) of
           Inl e \<Rightarrow> Inl e
         | Inr pos \<Rightarrow>
             Inr \<lparr>lineId = line_id line,
                  word = get_prop candidate (js ''word''),
                  reading = get_prop candidate (js ''reading''),
                  meaning = get_prop candidate (js ''meaning''),
                  partOfSpeech = Some (JStr pos),
                  exampleSentence = line_contentJa line,
                  exampleTranslation = or_undefined (line_contentZh line),
                  wordPosition = get_prop candidate (js ''wordPosition'')\<rparr>))"

text \<open>The argument built for one card by \<open>POST /api/cards/generate\<close>.\<close>

definition generate_card_input :: "line_row \<Rightarrow> json \<Rightarrow> error + CreateCardInput" where
  "generate_card_input line candidate =
     (if candidate = JNull then Inl TypeError
      else
        Inr \<lparr>lineId = line_id line,
             word = get_prop candidate (js ''word''),
             reading = get_prop candidate (js ''reading''),
             meaning = get_prop candidate (js ''meaning''),
             partOfSpeech = get_prop candidate (js ''partOfSpeech''),
             exampleSentence = line_contentJa line,
             exampleTranslation = or_undefined (line_contentZh line),
             wordPosition = get_prop candidate (js ''wordPosition'')\<rparr>)"

text \<open>
  What each route does with the value returned by \<open>generateCardsFromLine\<close>:
  \<open>cards.slice(0, count).map(...)\<close>. A returned value that is not an array has no usable
  \<open>slice\<close>/\<open>map\<close> pair and the route ends in its \<open>catch\<close> with nothing stored.
\<close>

definition import_save_cards ::
  "driver \<Rightarrow> card_store \<Rightarrow> line_row \<Rightarrow> int \<Rightarrow> json
     \<Rightarrow> card_store \<times> CreateCardInput list \<times> (error + Card list)" where
  "import_save_cards drv store line cardsPerLine cards =
     (case cards of
        JArr cs \<Rightarrow> save_cards drv (import_card_input line) store (slice0 cs cardsPerLine)
      | _ \<Rightarrow> (store, [], Inl TypeError))"

definition generate_save_cards ::
  "driver \<Rightarrow> card_store \<Rightarrow> line_row \<Rightarrow> int \<Rightarrow> json
     \<Rightarrow> card_store \<times> CreateCardInput list \<times> (error + Card list)" where
  "generate_save_cards drv store line count generatedCards =
     (case generatedCards of
        JArr cs \<Rightarrow> save_cards drv (generate_card_input line) store (slice0 cs count)
      | _ \<Rightarrow> (store, [], Inl TypeError))"

section \<open>Learning progress (src/services/cards.service.ts)\<close>

datatype CardStatus = New | Learning | Mastered

type_synonym timestamp = nat

record CardProgress =
  userId :: jsstring
  cardId :: jsstring
  status :: CardStatus
  lastReviewedAt :: "timestamp option"
  reviewCount :: int
  createdAt :: timestamp
  updatedAt :: timestamp

text \<open>
  The \<open>card_progress\<close> table has a unique index on \<open>(user_id, card_id)\<close>: it is a partial
  map from that pair to the row. \<open>user_id\<close> and \<open>card_id\<close> are foreign keys, and
  \<open>review_count\<close> is a 32-bit \<open>integer\<close> column: PostgreSQL rejects an insert for an
  unknown user or card and an update that takes the counter past \<open>2147483647\<close>.
\<close>

record database =
  db_users :: "jsstring set"
  db_cards :: "jsstring set"
  db_cardProgress :: "jsstring \<times> jsstring \<rightharpoonup> CardProgress"

datatype db_error = ForeignKeyViolation | IntegerOutOfRange

definition getOrCreateProgress ::
  "timestamp \<Rightarrow> database \<Rightarrow> jsstring \<Rightarrow> jsstring \<Rightarrow> db_error + database \<times> CardProgress" where
  "getOrCreateProgress now db uid cid =
     (case db_cardProgress db (uid, cid) of
        Some existing \<Rightarrow> Inr (db, existing)
      | None \<Rightarrow>
          if uid \<in> db_users db \<and> cid \<in> db_cards db then
            (let progress = \<lparr>userId = uid, cardId = cid, status = New, lastReviewedAt = None,
                              reviewCount = 0, createdAt = now, updatedAt = now\<rparr>
             in Inr (db\<lparr>db_cardProgress := (db_cardProgress db)((uid, cid) \<mapsto> progress)\<rparr>, progress))
          else Inl ForeignKeyViolation)"

definition updateCardStatus ::
  "timestamp \<Rightarrow> database \<Rightarrow> jsstring \<Rightarrow> jsstring \<Rightarrow> CardStatus \<Rightarrow> db_error + database \<times> CardProgress" where
  "updateCardStatus now db uid cid newStatus =
     (case getOrCreateProgress now db uid cid of
        Inl e \<Rightarrow> Inl e
      | Inr (db', row) \<Rightarrow>
          if reviewCount row + 1 > 2147483647 then Inl IntegerOutOfRange
          else
            (let progress = row\<lparr>status := newStatus, reviewCount := reviewCount row + 1,
                                 lastReviewedAt := Some now, updatedAt := now\<rparr>
             in Inr (db'\<lparr>db_cardProgress := (db_cardProgress db')((uid, cid) \<mapsto> progress)\<rparr>, progress)))"

section \<open>Auxiliary definitions for the properties\<close>

text \<open>
  The condition of a failed batch call: the call raises an exception, or no JSON can be
  extracted from its reply.
\<close>

definition call_failed :: "completion \<Rightarrow> bool" where
  "call_failed reply =
     (case reply of Rejected \<Rightarrow> True | Completion content \<Rightarrow> extractJSON (content_text content) = JNull)"

text \<open>What one iteration of the loop of \<open>parseLyrics\<close> appends to the results.\<close>

definition batch_results :: "(nat \<Rightarrow> jsstring list \<Rightarrow> completion) \<Rightarrow> jsstring list \<Rightarrow> nat \<Rightarrow> json list" where
  "batch_results service lyrics i =
     (case parseLyricsBatch (service i) (slice lyrics i (i + batchSize)) i of
        Inr batchResults \<Rightarrow> batchResults
      | Inl e \<Rightarrow> placeholders (slice lyrics i (i + batchSize)) i)"

text \<open>The row written by the \<open>UPDATE\<close> of \<open>updateCardStatus\<close>.\<close>

definition reviewed :: "timestamp \<Rightarrow> CardStatus \<Rightarrow> CardProgress \<Rightarrow> CardProgress" where
  "reviewed now newStatus row =
     row\<lparr>status := newStatus, reviewCount := reviewCount row + 1,
         lastReviewedAt := Some now, updatedAt := now\<rparr>"

subsection \<open>Sample data\<close>




definition new_row :: CardProgress where
  "new_row = \<lparr>userId = js ''u1'', cardId = js ''c1'', status = New, lastReviewedAt = None,
              reviewCount = 0, createdAt = 100, updatedAt = 100\<rparr>"

definition db0 :: database where
  "db0 = \<lparr>db_users = {js ''u1''}, db_cards = {js ''c1'', js ''c2''},
          db_cardProgress = [(js ''u1'', js ''c1'') \<mapsto> new_row]\<rparr>"

definition nine_lines :: "jsstring list" where
  "nine_lines = [js ''a'', js ''b'', js ''c'', js ''d'', js ''e'', js ''f'', js ''g'', js ''h'', js ''i'']"

text \<open>
  Replies to the two batches of \<open>nine_lines\<close>. \<open>eight_entries\<close> answers the first batch
  with one entry for each of its eight lines. \<open>second_batch_not_array\<close> answers the
  second batch with a \<open>lines\<close> that is a string, \<open>first_batch_false\<close> answers the first
  batch with the JSON text \<open>false\<close>, \<open>every_call_rejected\<close> rejects every call.
\<close>

definition eight_entries :: string where
  \<open>eight_entries = ''{"lines":[{"contentZh":"A"},{"contentZh":"B"},{"contentZh":"C"},{"contentZh":"D"},{"contentZh":"E"},{"contentZh":"F"},{"contentZh":"G"},{"contentZh":"H"}]}''\<close>

definition second_batch_not_array :: "nat \<Rightarrow> jsstring list \<Rightarrow> completion" where
  \<open>second_batch_not_array i batch =
     Completion (Some (if i = 0 then js eight_entries else js ''{"lines":"abc"}''))\<close>

definition first_batch_false :: "nat \<Rightarrow> jsstring list \<Rightarrow> completion" where
  \<open>first_batch_false i batch =
     Completion (Some (if i = 0 then js ''false'' else js ''{"lines":[{"contentZh":"I"}]}''))\<close>

definition every_call_rejected :: "nat \<Rightarrow> jsstring list \<Rightarrow> completion" where
  "every_call_rejected i batch = Rejected"

text \<open>
  A reply to the first batch of \<open>nine_lines\<close> that carries seven entries for its eight
  lines (the last two lines translated as one), and a complete reply to the second.
\<close>

definition seven_of_eight :: "nat \<Rightarrow> jsstring list \<Rightarrow> completion" where
  \<open>seven_of_eight i batch =
     Completion (Some (if i = 0
       then js ''{"lines":[{"contentZh":"A"},{"contentZh":"B"},{"contentZh":"C"},{"contentZh":"D"},{"contentZh":"E"},{"contentZh":"F"},{"contentZh":"GH"}]}''
       else js ''{"lines":[{"contentZh":"I"}]}''))\<close>

text \<open>
  A reply for the single line \<open>ab\<close> whose furigana string holds a span from 1 to 4, past
  the end of the two-character line. \<open>escq s\<close> is \<open>s\<close> between two escaped quotes, as the
  string stands inside the JSON text.
\<close>

definition escq :: "string \<Rightarrow> string" where
  "escq s = [CHR 0x5C, CHR 0x22] @ s @ [CHR 0x5C, CHR 0x22]"

definition span_past_end :: "nat \<Rightarrow> jsstring list \<Rightarrow> completion" where
  \<open>span_past_end i batch =
     Completion (Some (js
       (''{"lines":[{"contentJa":"ab","contentZh":"x","furigana":"[{''
        @ escq ''word'' @ '':'' @ escq ''ab'' @ '','' @ escq ''reading'' @ '':'' @ escq ''ei'' @ '',''
        @ escq ''start'' @ '':1,'' @ escq ''end'' @ '':4}]","tokens":"[]"}]}'')))\<close>

text \<open>
  A reply to the second batch of \<open>nine_lines\<close> whose entry carries its furigana as a
  string, with one span from 0 to 1, and a reply for the single line \<open>ab\<close> whose entry
  carries its furigana as an array.
\<close>

definition eight_then_span :: "nat \<Rightarrow> jsstring list \<Rightarrow> completion" where
  \<open>eight_then_span i batch =
     Completion (Some (if i = 0 then js eight_entries
       else js (''{"lines":[{"contentZh":"I","furigana":"[{'' @ escq ''start'' @ '':0,''
                @ escq ''end'' @ '':1}]"}]}'')))\<close>

definition array_furigana :: "nat \<Rightarrow> jsstring list \<Rightarrow> completion" where
  \<open>array_furigana i batch =
     Completion (Some (js ''{"lines":[{"contentZh":"x","furigana":[{"start":0,"end":1}]}]}''))\<close>

text \<open>
  A driver for the samples: a string is sent as it is and a JSON value is stored as it
  is; the samples bind nothing but strings as text. The table knows the line \<open>line-1\<close>
  and holds no card yet.
\<close>

definition plain_driver :: driver where
  "plain_driver = \<lparr>to_text = (\<lambda>v. case v of JStr t \<Rightarrow> Some t | _ \<Rightarrow> None), to_jsonb = Some\<rparr>"

definition empty_store :: card_store where
  "empty_store = \<lparr>cs_lines = {js ''line-1''}, cs_cards = []\<rparr>"


section \<open>Properties of JSON.parse\<close>

lemmas json_eval = extractJSON_def JSON_parse_def slice_def is_ws_def is_num_char_def is_digit_def
  parse_number_def parse_exponent_def digits_value_def number_value_def to_double_def
  binary_exponent_def scaled_def round_half_even_def bit_length.simps Let_def unescape_def hexval_def
  comes_before_def is_array_index_def

text \<open>
  The parser on texts of each kind of value, with white space, escapes and nesting; a
  repeated key keeps its first place and its last value, and keys that are array
  indices come first, in ascending order.
\<close>

lemma JSON_parse_accepts:
  \<open>JSON_parse (js '' [1, -2.50e1, true, false, null, "x", {"k":[ ]}, 0.5, 1E-2] '')
     = Some (JArr [JNum 1, JNum (- 25), JBool True, JBool False, JNull, JStr (js ''x''),
                   JObj [(js ''k'', JArr [])], JNum (1 / 2),
                   JNum (5764607523034235 / 576460752303423488)])\<close>
  \<open>JSON_parse (js ''{"a":1,"b":2,"a":3}'') = Some (JObj [(js ''a'', JNum 3), (js ''b'', JNum 2)])\<close>
  \<open>JSON_parse (js ''{"b":1,"2":2,"01":0,"a":3,"1":4}'')
     = Some (JObj [(js ''1'', JNum 4), (js ''2'', JNum 2), (js ''b'', JNum 1), (js ''01'', JNum 0),
                   (js ''a'', JNum 3)])\<close>
  \<open>JSON_parse (js (''"tab'' @ [CHR 0x5C] @ ''t, e-acute '' @ [CHR 0x5C] @ ''u00e9, kana '' @ [CHR 0x5C] @ ''u3042"''))
     = Some (JStr (js ''tab'' @ [9] @ js '', e-acute '' @ [233] @ js '', kana '' @ [12354]))\<close>
  \<open>JSON_parse (js ''null'') = Some JNull\<close>
  \<open>JSON_parse (js ''-0'') = Some (JNum 0)\<close>
  by (simp_all add: json_eval)

text \<open>
  Numbers are rounded to the nearest double: the integer after \<open>2^53\<close>, decimal
  fractions, a literal beyond the largest double and one below half the smallest.
\<close>

lemma JSON_parse_rounds:
  \<open>JSON_parse (js ''9007199254740993'') = Some (JNum 9007199254740992)\<close>
  \<open>JSON_parse (js ''0.1'') = Some (JNum (3602879701896397 / 36028797018963968))\<close>
  \<open>JSON_parse (js ''123456.789'') = Some (JNum (8483885939586761 / 68719476736))\<close>
  \<open>JSON_parse (js ''1.0000000000000000001'') = Some (JNum 1)\<close>
  by (simp_all add: json_eval)

lemma JSON_parse_range:
  \<open>JSON_parse (js ''-1e309'') = Some (JInfinity True)\<close>
  \<open>JSON_parse (js ''2e-324'') = Some (JNum 0)\<close>
  by (simp_all add: json_eval)

text \<open>Texts that are not JSON: each of them makes \<open>JSON.parse\<close> throw.\<close>

lemma JSON_parse_rejects:
  \<open>JSON_parse (js '''') = None\<close>
  \<open>JSON_parse (js ''01'') = None\<close>
  \<open>JSON_parse (js ''1.'') = None\<close>
  \<open>JSON_parse (js ''.5'') = None\<close>
  \<open>JSON_parse (js ''+1'') = None\<close>
  \<open>JSON_parse (js ''1e'') = None\<close>
  \<open>JSON_parse (js ''[1,]'') = None\<close>
  \<open>JSON_parse (js ''{"a":1,}'') = None\<close>
  \<open>JSON_parse (js ''{a:1}'') = None\<close>
  \<open>JSON_parse (js ''1 2'') = None\<close>
  \<open>JSON_parse (js ''tru'') = None\<close>
  \<open>JSON_parse (js ''"open'') = None\<close>
  \<open>JSON_parse (js ''[1, 2'') = None\<close>
  \<open>JSON_parse (js ''{"a":1} trailing'') = None\<close>
  \<open>JSON_parse (js (''"bad '' @ [CHR 0x5C] @ ''x escape"'')) = None\<close>
  \<open>JSON_parse (js ''"raw'' @ [10] @ js ''newline"'') = None\<close>
  by (simp_all add: json_eval)

section \<open>Properties of extractJSON\<close>

lemma indexOf_None_iff: "indexOf xs c = None \<longleftrightarrow> c \<notin> set xs"
  by (induction xs) auto

lemma indexOf_Some_less: "indexOf xs c = Some s \<Longrightarrow> s < length xs"
  by (induction xs arbitrary: s) (auto split: if_splits)

lemma indexOf_append: "indexOf xs c = Some s \<Longrightarrow> indexOf (xs @ ys) c = Some s"
  by (induction xs arbitrary: s) (auto split: if_splits)

lemma scanBraces_bound:
  "scanBraces i xs b q e = Some k \<Longrightarrow> i \<le> k \<and> k < i + length xs"
proof (induction xs arbitrary: i b q e)
  case Nil
  then show ?case by simp
next
  case (Cons x xs)
  from Cons.prems show ?case
    by (auto simp: Let_def split: if_splits dest!: Cons.IH)
qed

lemma scanBraces_append:
  "scanBraces i xs b q e = Some k \<Longrightarrow> scanBraces i (xs @ ys) b q e = Some k"
proof (induction xs arbitrary: i b q e)
  case Nil
  then show ?case by simp
next
  case (Cons x xs)
  from Cons.prems show ?case
    by (auto simp: Let_def split: if_splits intro!: Cons.IH)
qed

lemma slice_append: "b \<le> length xs \<Longrightarrow> slice (xs @ ys) a b = slice xs a b"
  by (simp add: slice_def)

text \<open>
  Claim C9. \<open>extractJSON\<close> commits to the first opening brace: when the whole text is
  not JSON and the balanced-brace substring that starts at the first \<open>{\<close> does not parse,
  the result is \<open>null\<close>, whatever follows that substring, a valid JSON object included.
  The loop never looks at \<open>later\<close>: it has returned before.
\<close>

theorem extractJSON_commits_to_first_brace:
  assumes whole: "JSON_parse (text @ later) = None"
    and first: "indexOf text (cu CHR ''{'') = Some startIndex"
    and closes: "scanBraces startIndex (drop startIndex text) 0 False False = Some i"
    and bad: "JSON_parse (slice text startIndex (i + 1)) = None"
  shows "extractJSON (text @ later) = JNull"
proof -
  have s: "startIndex < length text" using first by (rule indexOf_Some_less)
  have "indexOf (text @ later) (cu CHR ''{'') = Some startIndex"
    using first by (rule indexOf_append)
  moreover have "drop startIndex (text @ later) = drop startIndex text @ later"
    using s by simp
  moreover have "scanBraces startIndex (drop startIndex text @ later) 0 False False = Some i"
    using closes by (rule scanBraces_append)
  moreover have "i < length text"
    using scanBraces_bound [OF closes] s by simp
  then have "slice (text @ later) startIndex (i + 1) = slice text startIndex (i + 1)"
    by (simp add: slice_append)
  ultimately show ?thesis
    using whole bad by (simp add: extractJSON_def del: of_char_Char)
qed


text \<open>
  At \<open>{oops} {"a":1}\<close> the substring \<open>{oops}\<close> is balanced and is not JSON; the valid
  object after it is never tried.
\<close>

theorem extractJSON_commits_to_first_brace_witness:
  \<open>JSON_parse (js ''{oops}'' @ js '' {"a":1}'') = None
   \<and> indexOf (js ''{oops}'') (cu CHR ''{'') = Some 0
   \<and> scanBraces 0 (drop 0 (js ''{oops}'')) 0 False False = Some 5
   \<and> JSON_parse (slice (js ''{oops}'') 0 (5 + 1)) = None
   \<and> JSON_parse (js ''{"a":1}'') = Some (JObj [(js ''a'', JNum 1)])
   \<and> extractJSON (js ''{oops}'' @ js '' {"a":1}'') = JNull\<close>
proof -
  have whole: \<open>JSON_parse (js ''{oops}'' @ js '' {"a":1}'') = None\<close>
    by (simp add: json_eval)
  have first: "indexOf (js ''{oops}'') (cu CHR ''{'') = Some 0"
    by simp
  have closes: "scanBraces 0 (drop 0 (js ''{oops}'')) 0 False False = Some 5"
    by simp
  have bad: "JSON_parse (slice (js ''{oops}'') 0 (5 + 1)) = None"
    by (simp add: json_eval)
  have later: \<open>JSON_parse (js ''{"a":1}'') = Some (JObj [(js ''a'', JNum 1)])\<close>
    by (simp add: json_eval)
  from extractJSON_commits_to_first_brace [OF whole first closes bad] whole first closes bad later
  show ?thesis by blast
qed

text \<open>
  Claim C3, as amended. \<open>extractJSON\<close> first parses the whole text and returns that value
  when it succeeds; otherwise it scans from the first \<open>{\<close>, counting braces outside string
  literals and skipping the character after a backslash inside one, and parses the
  balanced substring. It returns \<open>{a:1, b:{c:2}}\<close> for the text with prose around the
  object; it reads a string value with escaped quotes to its real end, also when the
  object sits inside prose and a closing brace follows the escaped quote; and for a text
  without any \<open>{\<close> that is not JSON as a whole it returns \<open>null\<close>.
\<close>

theorem extractJSON_examples:
  \<open>extractJSON (js ''prefix text {"a":1,"b":{"c":2}} trailing'')
     = JObj [(js ''a'', JNum 1), (js ''b'', JObj [(js ''c'', JNum 2)])]
   \<and> extractJSON (js (''{"a":"he said '' @ [CHR 0x5C] @ ''"hi'' @ [CHR 0x5C] @ ''""}''))
     = JObj [(js ''a'', JStr (js ''he said "hi"''))]
   \<and> extractJSON (js (''Result: {"a":"he said '' @ [CHR 0x5C] @ ''"hi}'' @ [CHR 0x5C] @ ''""} (end)''))
     = JObj [(js ''a'', JStr (js ''he said "hi}"''))]
   \<and> (JSON_parse text = Some v \<longrightarrow> extractJSON text = v)
   \<and> (JSON_parse text = None \<and> cu CHR ''{'' \<notin> set text \<longrightarrow> extractJSON text = JNull)\<close>
proof (intro conjI impI)
  show \<open>extractJSON (js ''prefix text {"a":1,"b":{"c":2}} trailing'')
     = JObj [(js ''a'', JNum 1), (js ''b'', JObj [(js ''c'', JNum 2)])]\<close>
    by (simp add: json_eval)
  show \<open>extractJSON (js (''{"a":"he said '' @ [CHR 0x5C] @ ''"hi'' @ [CHR 0x5C] @ ''""}''))
     = JObj [(js ''a'', JStr (js ''he said "hi"''))]\<close>
    by (simp add: json_eval)
  show \<open>extractJSON (js (''Result: {"a":"he said '' @ [CHR 0x5C] @ ''"hi}'' @ [CHR 0x5C] @ ''""} (end)''))
     = JObj [(js ''a'', JStr (js ''he said "hi}"''))]\<close>
    by (simp add: json_eval)
  show "extractJSON text = v" if "JSON_parse text = Some v"
    using that by (simp add: extractJSON_def)
  show "extractJSON text = JNull" if "JSON_parse text = None \<and> cu CHR ''{'' \<notin> set text"
  proof -
    from that have "indexOf text (cu CHR ''{'') = None"
      by (simp add: indexOf_None_iff)
    with that show ?thesis by (simp add: extractJSON_def)
  qed
qed

text \<open>
  The two general parts at concrete texts: a text that is JSON as a whole, and prose
  without a brace.
\<close>

theorem extractJSON_examples_witness:
  \<open>JSON_parse (js ''[1, 2]'') = Some (JArr [JNum 1, JNum 2])
   \<and> extractJSON (js ''[1, 2]'') = JArr [JNum 1, JNum 2]
   \<and> JSON_parse (js ''I cannot help with that.'') = None
   \<and> cu CHR ''{'' \<notin> set (js ''I cannot help with that.'')
   \<and> extractJSON (js ''I cannot help with that.'') = JNull\<close>
proof -
  have a: \<open>JSON_parse (js ''[1, 2]'') = Some (JArr [JNum 1, JNum 2])\<close>
    by (simp add: json_eval)
  have b: \<open>JSON_parse (js ''I cannot help with that.'') = None \<and> cu CHR ''{'' \<notin> set (js ''I cannot help with that.'')\<close>
    by (simp add: json_eval)
  from extractJSON_examples [of "js ''[1, 2]''" "JArr [JNum 1, JNum 2]"] a
  have "extractJSON (js ''[1, 2]'') = JArr [JNum 1, JNum 2]" by blast
  moreover from extractJSON_examples [of "js ''I cannot help with that.''"] b
  have "extractJSON (js ''I cannot help with that.'') = JNull" by blast
  ultimately show ?thesis using a b by blast
qed

text \<open>
  Claim C3 as stated says that every text without \<open>{\<close> gives \<open>null\<close>. The text \<open>[1, 2]\<close>
  has no brace and is returned parsed, by the first attempt.
\<close>

theorem extractJSON_no_brace_counterexample:
  \<open>cu CHR ''{'' \<notin> set (js ''[1, 2]'')
   \<and> extractJSON (js ''[1, 2]'') = JArr [JNum 1, JNum 2]
   \<and> extractJSON (js ''[1, 2]'') \<noteq> JNull\<close>
  by (simp add: json_eval)

section \<open>Properties of generateCardsFromLine\<close>

text \<open>
  Claim C5. In \<open>generateCardsFromLine\<close> a reply from which no JSON can be extracted is a
  hard failure: the function throws to its caller, as it does when the call itself is
  rejected. The result is the error, never a placeholder or a partial list.
\<close>

theorem generateCardsFromLine_hard_failure:
  "generateCardsFromLine Rejected = Inl CardGenerationFailed
   \<and> (extractJSON (content_text content) = JNull
        \<longrightarrow> generateCardsFromLine (Completion content) = Inl CardGenerationFailed)"
  by (simp add: generateCardsFromLine_def)

text \<open>A reply in prose, and a reply cut off in the middle of the object.\<close>

theorem generateCardsFromLine_hard_failure_witness:
  \<open>extractJSON (content_text (Some (js ''Sorry, I have no cards for this line.''))) = JNull
   \<and> generateCardsFromLine (Completion (Some (js ''Sorry, I have no cards for this line.'')))
       = Inl CardGenerationFailed
   \<and> extractJSON (content_text (Some (js ''{"cards": [{"word": "yume"''))) = JNull
   \<and> generateCardsFromLine (Completion (Some (js ''{"cards": [{"word": "yume"'')))
       = Inl CardGenerationFailed\<close>
proof -
  have a: \<open>extractJSON (content_text (Some (js ''Sorry, I have no cards for this line.''))) = JNull\<close>
    by (simp add: json_eval)
  have b: \<open>extractJSON (content_text (Some (js ''{"cards": [{"word": "yume"''))) = JNull\<close>
    by (simp add: json_eval)
  from generateCardsFromLine_hard_failure [of "Some (js ''Sorry, I have no cards for this line.'')"] a
    generateCardsFromLine_hard_failure [of \<open>Some (js ''{"cards": [{"word": "yume"'')\<close>] b
  show ?thesis by blast
qed

text \<open>
  When the extraction yields a truthy value whose \<open>cards\<close> is missing or falsy
  (\<open>null\<close>, \<open>false\<close>, \<open>0\<close>, the empty string), \<open>parsed.cards || []\<close> is the empty list:
  \<open>generateCardsFromLine\<close> returns it as a success value and throws nothing.
\<close>

lemma generateCardsFromLine_without_cards:
  assumes "truthy (extractJSON (content_text content))"
    and "\<not> truthy_opt (get_prop (extractJSON (content_text content)) (js ''cards''))"
  shows "generateCardsFromLine (Completion content) = Inr (JArr [])"
  using assms
  by (cases "get_prop (extractJSON (content_text content)) (js ''cards'')")
     (simp_all add: generateCardsFromLine_def Let_def del: of_char_Char)

lemma generateCardsFromLine_without_cards_example:
  \<open>generateCardsFromLine (Completion (Some (js ''{"note":"no vocabulary in this line"}'')))
     = Inr (JArr [])\<close>
  \<open>generateCardsFromLine (Completion (Some (js ''{"cards":null}''))) = Inr (JArr [])\<close>
  by (simp_all add: json_eval generateCardsFromLine_def)

section \<open>Properties of the card routes\<close>

lemma normalizePartOfSpeech_closed:
  "normalizePartOfSpeech pos = Inr p \<Longrightarrow> p \<in> set validPartOfSpeech"
  by (auto simp: normalizePartOfSpeech_def validPartOfSpeech_def Let_def
      split: if_splits option.splits json.splits)

lemma normalizePartOfSpeech_examples:
  "normalizePartOfSpeech (Some (JStr (js ''pronoun''))) = Inr (js ''other'')"
  "normalizePartOfSpeech (Some (JStr (js ''preposition''))) = Inr (js ''particle'')"
  "normalizePartOfSpeech (Some (JStr (js ''verb''))) = Inr (js ''verb'')"
  "normalizePartOfSpeech (Some (JStr (js ''Verb''))) = Inr (js ''verb'')"
  "normalizePartOfSpeech (Some (JStr (js ''meishi''))) = Inr (js ''other'')"
  "normalizePartOfSpeech None = Inr (js ''other'')"
  "normalizePartOfSpeech (Some (JStr [])) = Inr (js ''other'')"
  by (simp_all add: normalizePartOfSpeech_def validPartOfSpeech_def toLowerCase_def)

lemma normalizePartOfSpeech_unrecognized:
  "toLowerCase p \<notin> set validPartOfSpeech \<Longrightarrow> toLowerCase p \<noteq> js ''preposition''
   \<Longrightarrow> toLowerCase p \<noteq> js ''prep''
   \<Longrightarrow> normalizePartOfSpeech (Some (JStr p)) = Inr (js ''other'')"
  by (cases "p = []") (simp_all add: normalizePartOfSpeech_def Let_def del: of_char_Char)


lemma createCard_rejected:
  assumes "lineId input \<notin> cs_lines store \<or> card_row drv (createCard_values input) = None"
  shows "createCard drv store input = Inl DatabaseError"
  using assms by (auto simp: createCard_def createCard_values_def Let_def)






lemmas route_eval = generate_save_cards_def import_save_cards_def slice0_def generate_card_input_def
  import_card_input_def createCard_def createCard_values_def normalizePartOfSpeech_def
  validPartOfSpeech_def toLowerCase_def or_undefined_def card_row_def partOfSpeechEnum_def
  is_high_surrogate_def is_low_surrogate_def


text \<open>
  Claim C6 at the reply of a card tagged \<open>pronoun\<close>. \<open>POST /api/cards/generate\<close> hands the
  tag to the table as it came, outside the six names; \<open>pronoun\<close> is no label of the
  enum of the column, the insert is rejected and no card is stored. The import route,
  given the same card, hands over \<open>other\<close> and stores the card with it.
\<close>

theorem generate_route_writes_pronoun:
  \<open>generateCardsFromLine (Completion (Some (js
       ''{"cards":[{"word":"watashi","reading":"watashi","meaning":"I","partOfSpeech":"pronoun"}]}'')))
     = Inr (JArr [JObj [(js ''word'', JStr (js ''watashi'')), (js ''reading'', JStr (js ''watashi'')),
                        (js ''meaning'', JStr (js ''I'')), (js ''partOfSpeech'', JStr (js ''pronoun''))]])
   \<and> map partOfSpeech (fst (snd (generate_save_cards plain_driver empty_store
         \<lparr>line_id = js ''line-1'', line_contentJa = js ''watashi no yume'', line_contentZh = Some (js ''my dream'')\<rparr> 1
         (JArr [JObj [(js ''word'', JStr (js ''watashi'')), (js ''reading'', JStr (js ''watashi'')),
                      (js ''meaning'', JStr (js ''I'')), (js ''partOfSpeech'', JStr (js ''pronoun''))]]))))
     = [Some (JStr (js ''pronoun''))]
   \<and> js ''pronoun'' \<notin> set validPartOfSpeech
   \<and> js ''pronoun'' \<notin> set partOfSpeechEnum
   \<and> fst (generate_save_cards plain_driver empty_store
         \<lparr>line_id = js ''line-1'', line_contentJa = js ''watashi no yume'', line_contentZh = Some (js ''my dream'')\<rparr> 1
         (JArr [JObj [(js ''word'', JStr (js ''watashi'')), (js ''reading'', JStr (js ''watashi'')),
                      (js ''meaning'', JStr (js ''I'')), (js ''partOfSpeech'', JStr (js ''pronoun''))]]))
     = empty_store
   \<and> snd (snd (generate_save_cards plain_driver empty_store
         \<lparr>line_id = js ''line-1'', line_contentJa = js ''watashi no yume'', line_contentZh = Some (js ''my dream'')\<rparr> 1
         (JArr [JObj [(js ''word'', JStr (js ''watashi'')), (js ''reading'', JStr (js ''watashi'')),
                      (js ''meaning'', JStr (js ''I'')), (js ''partOfSpeech'', JStr (js ''pronoun''))]])))
     = Inl DatabaseError
   \<and> map partOfSpeech (fst (snd (import_save_cards plain_driver empty_store
         \<lparr>line_id = js ''line-1'', line_contentJa = js ''watashi no yume'', line_contentZh = Some (js ''my dream'')\<rparr> 1
         (JArr [JObj [(js ''word'', JStr (js ''watashi'')), (js ''reading'', JStr (js ''watashi'')),
                      (js ''meaning'', JStr (js ''I'')), (js ''partOfSpeech'', JStr (js ''pronoun''))]]))))
     = [Some (JStr (js ''other''))]
   \<and> map card_partOfSpeech (cs_cards (fst (import_save_cards plain_driver empty_store
         \<lparr>line_id = js ''line-1'', line_contentJa = js ''watashi no yume'', line_contentZh = Some (js ''my dream'')\<rparr> 1
         (JArr [JObj [(js ''word'', JStr (js ''watashi'')), (js ''reading'', JStr (js ''watashi'')),
                      (js ''meaning'', JStr (js ''I'')), (js ''partOfSpeech'', JStr (js ''pronoun''))]]))))
     = [Some (js ''other'')]\<close>
proof (intro conjI)
  show \<open>generateCardsFromLine (Completion (Some (js
       ''{"cards":[{"word":"watashi","reading":"watashi","meaning":"I","partOfSpeech":"pronoun"}]}'')))
     = Inr (JArr [JObj [(js ''word'', JStr (js ''watashi'')), (js ''reading'', JStr (js ''watashi'')),
                        (js ''meaning'', JStr (js ''I'')), (js ''partOfSpeech'', JStr (js ''pronoun''))]])\<close>
    by (simp add: json_eval generateCardsFromLine_def)
  show "js ''pronoun'' \<notin> set validPartOfSpeech"
    by (simp add: validPartOfSpeech_def)
  show "js ''pronoun'' \<notin> set partOfSpeechEnum"
    by (simp add: partOfSpeechEnum_def)
qed (simp_all add: route_eval plain_driver_def empty_store_def)

text \<open>
  Without cards to save, both routes store nothing and report success.
\<close>

lemma save_no_cards:
  "generate_save_cards drv store line count (JArr []) = (store, [], Inr [])"
  "import_save_cards drv store line cardsPerLine (JArr []) = (store, [], Inr [])"
  by (simp_all add: generate_save_cards_def import_save_cards_def slice0_def)

text \<open>
  Claim C10 at a reply whose \<open>cards\<close> is a single card object, not an array. The
  extraction succeeds and the parsed object contains no \<open>cards\<close> array, yet
  \<open>generateCardsFromLine\<close> returns the card object, not the empty list:
  \<open>parsed.cards || []\<close> only replaces a falsy value. The function is declared to return
  an array of cards, and both routes call \<open>slice\<close> on what it returns: they throw a
  \<open>TypeError\<close> and store nothing.
\<close>

theorem generateCardsFromLine_returns_non_array:
  \<open>extractJSON (js ''{"cards":{"word":"yume","reading":"yume","meaning":"dream"}}'')
     = JObj [(js ''cards'', JObj [(js ''word'', JStr (js ''yume'')), (js ''reading'', JStr (js ''yume'')),
                                  (js ''meaning'', JStr (js ''dream''))])]
   \<and> generateCardsFromLine
        (Completion (Some (js ''{"cards":{"word":"yume","reading":"yume","meaning":"dream"}}'')))
     = Inr (JObj [(js ''word'', JStr (js ''yume'')), (js ''reading'', JStr (js ''yume'')),
                  (js ''meaning'', JStr (js ''dream''))])
   \<and> generateCardsFromLine
        (Completion (Some (js ''{"cards":{"word":"yume","reading":"yume","meaning":"dream"}}'')))
     \<noteq> Inr (JArr [])
   \<and> generate_save_cards drv store line count
        (JObj [(js ''word'', JStr (js ''yume'')), (js ''reading'', JStr (js ''yume'')),
               (js ''meaning'', JStr (js ''dream''))])
     = (store, [], Inl TypeError)
   \<and> import_save_cards drv store line cardsPerLine
        (JObj [(js ''word'', JStr (js ''yume'')), (js ''reading'', JStr (js ''yume'')),
               (js ''meaning'', JStr (js ''dream''))])
     = (store, [], Inl TypeError)\<close>
  by (simp add: json_eval generateCardsFromLine_def generate_save_cards_def import_save_cards_def)

section \<open>Properties of the learning progress\<close>

lemma updateCardStatus_existing:
  assumes "db_cardProgress db (uid, cid) = Some row" and "reviewCount row < 2147483647"
  shows "updateCardStatus now db uid cid newStatus =
           Inr (db\<lparr>db_cardProgress := (db_cardProgress db)((uid, cid) \<mapsto> reviewed now newStatus row)\<rparr>,
                reviewed now newStatus row)"
  using assms by (simp add: updateCardStatus_def getOrCreateProgress_def reviewed_def Let_def)

lemma getOrCreateProgress_missing:
  assumes "db_cardProgress db (uid, cid) = None" and "uid \<in> db_users db" and "cid \<in> db_cards db"
  shows "\<exists>db' r. getOrCreateProgress now db uid cid = Inr (db', r)
           \<and> db_cardProgress db' (uid, cid) = Some r \<and> status r = New \<and> reviewCount r = 0"
  using assms by (simp add: getOrCreateProgress_def Let_def)

lemma updateCardStatus_missing:
  assumes "db_cardProgress db (uid, cid) = None" and "uid \<in> db_users db" and "cid \<in> db_cards db"
  shows "\<exists>db' r. updateCardStatus now db uid cid newStatus = Inr (db', r)
           \<and> db_cardProgress db' (uid, cid) = Some r
           \<and> userId r = uid \<and> cardId r = cid
           \<and> status r = newStatus \<and> reviewCount r = 1 \<and> lastReviewedAt r = Some now"
  using assms by (simp add: updateCardStatus_def getOrCreateProgress_def Let_def)

lemma updateCardStatus_frame:
  assumes "updateCardStatus now db uid cid newStatus = Inr (db', r)" and "k \<noteq> (uid, cid)"
  shows "db_cardProgress db' k = db_cardProgress db k"
  using assms
  by (auto simp: updateCardStatus_def getOrCreateProgress_def Let_def
      split: option.splits if_splits)

lemma updateCardStatus_refused:
  "db_cardProgress db (uid, cid) = Some row \<Longrightarrow> reviewCount row = 2147483647
     \<Longrightarrow> updateCardStatus now db uid cid newStatus = Inl IntegerOutOfRange"
  "db_cardProgress db (uid, cid) = None \<Longrightarrow> uid \<notin> db_users db \<or> cid \<notin> db_cards db
     \<Longrightarrow> updateCardStatus now db uid cid newStatus = Inl ForeignKeyViolation"
  by (auto simp: updateCardStatus_def getOrCreateProgress_def Let_def)

text \<open>
  Claim C8. Every status update the database accepts sets the requested status,
  whatever the current one, adds exactly one to \<open>reviewCount\<close> and records the time of the
  review; a missing row is created with status \<open>new\<close> and count \<open>0\<close>, so that the first
  update of a card leaves the requested status and count \<open>1\<close>; no other row changes; and
  from a row in state \<open>new\<close> with count \<open>0\<close>, \<open>mastered\<close> followed by \<open>learning\<close> ends in
  \<open>learning\<close> with count \<open>2\<close>. The update is accepted while the counter is below the
  maximum of its 32-bit column, the insert when the user and the card exist.
\<close>

theorem updateCardStatus_counts_reviews:
  "(db_cardProgress db (uid, cid) = Some row \<and> reviewCount row < 2147483647
      \<longrightarrow> (\<exists>db' r. updateCardStatus now db uid cid newStatus = Inr (db', r)
             \<and> db_cardProgress db' (uid, cid) = Some r
             \<and> status r = newStatus \<and> reviewCount r = reviewCount row + 1
             \<and> lastReviewedAt r = Some now))
   \<and> (db_cardProgress db (uid, cid) = None \<and> uid \<in> db_users db \<and> cid \<in> db_cards db
      \<longrightarrow> (\<exists>db' r. getOrCreateProgress now db uid cid = Inr (db', r)
             \<and> db_cardProgress db' (uid, cid) = Some r
             \<and> status r = New \<and> reviewCount r = 0))
   \<and> (db_cardProgress db (uid, cid) = Some row \<and> status row = New \<and> reviewCount row = 0
      \<longrightarrow> (\<exists>db1 r1 db2 r2.
             updateCardStatus t1 db uid cid Mastered = Inr (db1, r1)
             \<and> updateCardStatus t2 db1 uid cid Learning = Inr (db2, r2)
             \<and> db_cardProgress db2 (uid, cid) = Some r2
             \<and> status r2 = Learning \<and> reviewCount r2 = 2 \<and> lastReviewedAt r2 = Some t2))
   \<and> (db_cardProgress db (uid, cid) = None \<and> uid \<in> db_users db \<and> cid \<in> db_cards db
      \<longrightarrow> (\<exists>db' r. updateCardStatus now db uid cid newStatus = Inr (db', r)
             \<and> db_cardProgress db' (uid, cid) = Some r
             \<and> userId r = uid \<and> cardId r = cid
             \<and> status r = newStatus \<and> reviewCount r = 1 \<and> lastReviewedAt r = Some now))
   \<and> (updateCardStatus now db uid cid newStatus = Inr (db'', r'') \<and> k \<noteq> (uid, cid)
      \<longrightarrow> db_cardProgress db'' k = db_cardProgress db k)"
proof (intro conjI impI)
  assume "db_cardProgress db (uid, cid) = Some row \<and> reviewCount row < 2147483647"
  then show "\<exists>db' r. updateCardStatus now db uid cid newStatus = Inr (db', r)
             \<and> db_cardProgress db' (uid, cid) = Some r
             \<and> status r = newStatus \<and> reviewCount r = reviewCount row + 1
             \<and> lastReviewedAt r = Some now"
    by (simp add: updateCardStatus_existing reviewed_def)
next
  assume "db_cardProgress db (uid, cid) = None \<and> uid \<in> db_users db \<and> cid \<in> db_cards db"
  then show "\<exists>db' r. getOrCreateProgress now db uid cid = Inr (db', r)
             \<and> db_cardProgress db' (uid, cid) = Some r
             \<and> status r = New \<and> reviewCount r = 0"
    by (simp add: getOrCreateProgress_missing)
next
  assume start: "db_cardProgress db (uid, cid) = Some row \<and> status row = New \<and> reviewCount row = 0"
  define r1 where "r1 = reviewed t1 Mastered row"
  define db1 where "db1 = db\<lparr>db_cardProgress := (db_cardProgress db)((uid, cid) \<mapsto> r1)\<rparr>"
  define r2 where "r2 = reviewed t2 Learning r1"
  define db2 where "db2 = db1\<lparr>db_cardProgress := (db_cardProgress db1)((uid, cid) \<mapsto> r2)\<rparr>"
  have first: "updateCardStatus t1 db uid cid Mastered = Inr (db1, r1)"
    using start by (simp add: updateCardStatus_existing db1_def r1_def)
  have "db_cardProgress db1 (uid, cid) = Some r1" and "reviewCount r1 < 2147483647"
    using start by (simp_all add: db1_def r1_def reviewed_def)
  then have second: "updateCardStatus t2 db1 uid cid Learning = Inr (db2, r2)"
    by (simp add: updateCardStatus_existing db2_def r2_def)
  have "db_cardProgress db2 (uid, cid) = Some r2 \<and> status r2 = Learning
          \<and> reviewCount r2 = 2 \<and> lastReviewedAt r2 = Some t2"
    using start by (simp add: db2_def r2_def r1_def reviewed_def)
  with first second show "\<exists>db1 r1 db2 r2.
             updateCardStatus t1 db uid cid Mastered = Inr (db1, r1)
             \<and> updateCardStatus t2 db1 uid cid Learning = Inr (db2, r2)
             \<and> db_cardProgress db2 (uid, cid) = Some r2
             \<and> status r2 = Learning \<and> reviewCount r2 = 2 \<and> lastReviewedAt r2 = Some t2"
    by blast
next
  assume "db_cardProgress db (uid, cid) = None \<and> uid \<in> db_users db \<and> cid \<in> db_cards db"
  then show "\<exists>db' r. updateCardStatus now db uid cid newStatus = Inr (db', r)
             \<and> db_cardProgress db' (uid, cid) = Some r
             \<and> userId r = uid \<and> cardId r = cid
             \<and> status r = newStatus \<and> reviewCount r = 1 \<and> lastReviewedAt r = Some now"
    by (simp add: updateCardStatus_missing)
next
  assume "updateCardStatus now db uid cid newStatus = Inr (db'', r'') \<and> k \<noteq> (uid, cid)"
  then show "db_cardProgress db'' k = db_cardProgress db k"
    using updateCardStatus_frame [of now db uid cid newStatus db'' r'' k] by simp
qed

text \<open>
  A table with one row for card \<open>c1\<close> and none for card \<open>c2\<close>: a review of \<open>c1\<close>, the
  first review of \<open>c2\<close>, which leaves the row of \<open>c1\<close> as it was, and two reviews of
  \<open>c1\<close> in a row.
\<close>

theorem updateCardStatus_counts_reviews_witness:
  "db_cardProgress db0 (js ''u1'', js ''c1'') = Some new_row
   \<and> status new_row = New \<and> reviewCount new_row = 0 \<and> reviewCount new_row < 2147483647
   \<and> db_cardProgress db0 (js ''u1'', js ''c2'') = None
   \<and> js ''u1'' \<in> db_users db0 \<and> js ''c2'' \<in> db_cards db0
   \<and> (\<exists>db' r. updateCardStatus 200 db0 (js ''u1'') (js ''c1'') Learning = Inr (db', r)
         \<and> status r = Learning \<and> reviewCount r = 1 \<and> lastReviewedAt r = Some 200)
   \<and> (\<exists>db' r. getOrCreateProgress 200 db0 (js ''u1'') (js ''c2'') = Inr (db', r)
         \<and> status r = New \<and> reviewCount r = 0)
   \<and> (\<exists>db1 r1 db2 r2.
         updateCardStatus 200 db0 (js ''u1'') (js ''c1'') Mastered = Inr (db1, r1)
         \<and> updateCardStatus 300 db1 (js ''u1'') (js ''c1'') Learning = Inr (db2, r2)
         \<and> status r2 = Learning \<and> reviewCount r2 = 2 \<and> lastReviewedAt r2 = Some 300)
   \<and> (\<exists>db' r. updateCardStatus 200 db0 (js ''u1'') (js ''c2'') Mastered = Inr (db', r)
         \<and> db_cardProgress db' (js ''u1'', js ''c2'') = Some r
         \<and> status r = Mastered \<and> reviewCount r = 1 \<and> lastReviewedAt r = Some 200
         \<and> db_cardProgress db' (js ''u1'', js ''c1'') = Some new_row)"
proof -
  have a: "db_cardProgress db0 (js ''u1'', js ''c1'') = Some new_row"
    by (simp add: db0_def)
  have b: "status new_row = New \<and> reviewCount new_row = 0 \<and> reviewCount new_row < 2147483647"
    by (simp add: new_row_def)
  have c: "db_cardProgress db0 (js ''u1'', js ''c2'') = None
      \<and> js ''u1'' \<in> db_users db0 \<and> js ''c2'' \<in> db_cards db0"
    by (simp add: db0_def)
  from updateCardStatus_counts_reviews [of db0 "js ''u1''" "js ''c1''" new_row 200 Learning 200 200] a b
  have 1: "\<exists>db' r. updateCardStatus 200 db0 (js ''u1'') (js ''c1'') Learning = Inr (db', r)
         \<and> status r = Learning \<and> reviewCount r = 1 \<and> lastReviewedAt r = Some 200"
    by fastforce
  from updateCardStatus_counts_reviews [of db0 "js ''u1''" "js ''c2''" new_row 200 Learning 200 200] c
  have 2: "\<exists>db' r. getOrCreateProgress 200 db0 (js ''u1'') (js ''c2'') = Inr (db', r)
         \<and> status r = New \<and> reviewCount r = 0"
    by fastforce
  from updateCardStatus_counts_reviews [of db0 "js ''u1''" "js ''c1''" new_row 200 Learning 200 300] a b
  have 3: "\<exists>db1 r1 db2 r2.
         updateCardStatus 200 db0 (js ''u1'') (js ''c1'') Mastered = Inr (db1, r1)
         \<and> updateCardStatus 300 db1 (js ''u1'') (js ''c1'') Learning = Inr (db2, r2)
         \<and> status r2 = Learning \<and> reviewCount r2 = 2 \<and> lastReviewedAt r2 = Some 300"
    by fastforce
  have ne: "(js ''u1'', js ''c1'') \<noteq> (js ''u1'', js ''c2'')"
    by simp
  obtain db' r where 4: "updateCardStatus 200 db0 (js ''u1'') (js ''c2'') Mastered = Inr (db', r)"
      "db_cardProgress db' (js ''u1'', js ''c2'') = Some r"
      "status r = Mastered" "reviewCount r = 1" "lastReviewedAt r = Some 200"
    using updateCardStatus_counts_reviews
            [of db0 "js ''u1''" "js ''c2''" new_row 200 Mastered 200 200, THEN conjunct2, THEN conjunct2,
             THEN conjunct2, THEN conjunct1] c
    by blast
  have "db_cardProgress db' (js ''u1'', js ''c1'') = db_cardProgress db0 (js ''u1'', js ''c1'')"
    using updateCardStatus_counts_reviews
            [of db0 "js ''u1''" "js ''c2''" new_row 200 Mastered 200 200 db' r "(js ''u1'', js ''c1'')",
             THEN conjunct2, THEN conjunct2, THEN conjunct2, THEN conjunct2] 4(1) ne
    by blast
  with a 4 have 5: "\<exists>db' r. updateCardStatus 200 db0 (js ''u1'') (js ''c2'') Mastered = Inr (db', r)
         \<and> db_cardProgress db' (js ''u1'', js ''c2'') = Some r
         \<and> status r = Mastered \<and> reviewCount r = 1 \<and> lastReviewedAt r = Some 200
         \<and> db_cardProgress db' (js ''u1'', js ''c1'') = Some new_row"
    by auto
  from a b c 1 2 3 5 show ?thesis by blast
qed

section \<open>Properties of parseLyrics\<close>

lemma call_failed_batch:
  "call_failed (llm lyrics) \<Longrightarrow> parseLyricsBatch llm lyrics startIndex = Inl LyricsParsingFailed"
  by (simp add: call_failed_def parseLyricsBatch_def split: completion.splits)

lemma loop_step:
  "i < length lyrics \<Longrightarrow>
     parseLyrics_loop service lyrics i results =
       parseLyrics_loop service lyrics (i + batchSize) (results @ batch_results service lyrics i)"
  by (subst parseLyrics_loop.simps) (simp add: batch_results_def Let_def)

lemma loop_done:
  "\<not> i < length lyrics \<Longrightarrow> parseLyrics_loop service lyrics i results = results"
  by (subst parseLyrics_loop.simps) simp

lemma loop_acc:
  "parseLyrics_loop service lyrics i results = results @ parseLyrics_loop service lyrics i []"
proof (induction "length lyrics - i" arbitrary: i results rule: less_induct)
  case less
  show ?case
  proof (cases "i < length lyrics")
    case True
    then have smaller: "length lyrics - (i + batchSize) < length lyrics - i"
      by (simp add: batchSize_def)
    let ?B = "batch_results service lyrics i"
    have "parseLyrics_loop service lyrics i results
            = parseLyrics_loop service lyrics (i + batchSize) (results @ ?B)"
      using True by (rule loop_step)
    also have "\<dots> = (results @ ?B) @ parseLyrics_loop service lyrics (i + batchSize) []"
      using smaller by (rule less)
    also have "\<dots> = results @ (?B @ parseLyrics_loop service lyrics (i + batchSize) [])"
      by simp
    also have "?B @ parseLyrics_loop service lyrics (i + batchSize) []
                 = parseLyrics_loop service lyrics (i + batchSize) ([] @ ?B)"
      using less [OF smaller, of ?B] by simp
    also have "\<dots> = parseLyrics_loop service lyrics i []"
      using loop_step [OF True, of service "[]"] by simp
    finally show ?thesis .
  next
    case False
    then show ?thesis by (simp add: loop_done)
  qed
qed

lemma loop_rec:
  "parseLyrics_loop service lyrics i [] =
     (if i < length lyrics
      then batch_results service lyrics i @ parseLyrics_loop service lyrics (i + batchSize) []
      else [])"
proof (cases "i < length lyrics")
  case True
  have "parseLyrics_loop service lyrics i []
          = parseLyrics_loop service lyrics (i + batchSize) (batch_results service lyrics i)"
    using loop_step [OF True, of service "[]"] by simp
  also have "\<dots> = batch_results service lyrics i @ parseLyrics_loop service lyrics (i + batchSize) []"
    by (rule loop_acc)
  finally show ?thesis using True by simp
next
  case False
  then show ?thesis by (simp add: loop_done)
qed

lemmas parse_eval = parseLyrics_def loop_rec batch_results_def parseLyricsBatch_def renumber_def
  enumerate_eq_zip placeholders_def placeholder_def batchSize_def

lemma placeholders_slice:
  assumes "i < length lyrics"
  shows "placeholders (slice lyrics i (i + batchSize)) i
           = map (\<lambda>k. placeholder (k + 1) (lyrics ! k)) [i..<min (i + batchSize) (length lyrics)]"
proof (rule nth_equalityI)
  show "length (placeholders (slice lyrics i (i + batchSize)) i)
          = length (map (\<lambda>k. placeholder (k + 1) (lyrics ! k)) [i..<min (i + batchSize) (length lyrics)])"
    using assms by (auto simp: placeholders_def slice_def min_def)
next
  fix j
  assume "j < length (placeholders (slice lyrics i (i + batchSize)) i)"
  then have j: "j < batchSize" "i + j < length lyrics"
    by (auto simp: placeholders_def slice_def)
  then have "0 + j < min (length lyrics - i) batchSize" "i + j < min (i + batchSize) (length lyrics)"
    by simp_all
  with j show "placeholders (slice lyrics i (i + batchSize)) i ! j
          = map (\<lambda>k. placeholder (k + 1) (lyrics ! k)) [i..<min (i + batchSize) (length lyrics)] ! j"
    by (simp add: placeholders_def slice_def del: upt_Suc)
qed

lemma failed_batch_results:
  assumes "i < length lyrics" and "isl (parseLyricsBatch (service i) (slice lyrics i (i + batchSize)) i)"
  shows "batch_results service lyrics i
           = map (\<lambda>k. placeholder (k + 1) (lyrics ! k)) [i..<min (i + batchSize) (length lyrics)]"
  using assms by (auto simp: batch_results_def placeholders_slice split: sum.splits)

lemma loop_contains_failed_batch:
  assumes "isl (parseLyricsBatch (service i0) (slice lyrics i0 (i0 + batchSize)) i0)"
    and "i0 < length lyrics"
  shows "i \<le> i0 \<Longrightarrow> (i0 - i) mod batchSize = 0 \<Longrightarrow>
           \<exists>pre post. parseLyrics_loop service lyrics i []
             = pre @ map (\<lambda>k. placeholder (k + 1) (lyrics ! k)) [i0..<min (i0 + batchSize) (length lyrics)] @ post"
proof (induction "i0 - i" arbitrary: i rule: less_induct)
  case less
  show ?case
  proof (cases "i = i0")
    case True
    have "parseLyrics_loop service lyrics i0 []
            = [] @ map (\<lambda>k. placeholder (k + 1) (lyrics ! k)) [i0..<min (i0 + batchSize) (length lyrics)]
                @ parseLyrics_loop service lyrics (i0 + batchSize) []"
      using assms by (subst loop_rec) (simp add: failed_batch_results)
    then show ?thesis using True by blast
  next
    case False
    with less.prems have lt: "i < i0" by simp
    have "batchSize \<le> i0 - i"
      using lt less.prems(2) by (simp add: batchSize_def) presburger
    then have next_ok: "i + batchSize \<le> i0" "(i0 - (i + batchSize)) mod batchSize = 0"
      "i0 - (i + batchSize) < i0 - i"
      using less.prems(2) lt by (simp_all add: batchSize_def) presburger
    from less.hyps [OF next_ok(3) next_ok(1) next_ok(2)]
    obtain pre post where
      "parseLyrics_loop service lyrics (i + batchSize) []
         = pre @ map (\<lambda>k. placeholder (k + 1) (lyrics ! k)) [i0..<min (i0 + batchSize) (length lyrics)] @ post"
      by blast
    moreover have "i < length lyrics" using lt assms(2) by simp
    ultimately have "parseLyrics_loop service lyrics i []
         = (batch_results service lyrics i @ pre)
           @ map (\<lambda>k. placeholder (k + 1) (lyrics ! k)) [i0..<min (i0 + batchSize) (length lyrics)] @ post"
      by (subst loop_rec) simp
    then show ?thesis by blast
  qed
qed

lemma loop_all_failed:
  assumes "\<And>i. i < length lyrics \<Longrightarrow> i mod batchSize = 0 \<Longrightarrow>
             isl (parseLyricsBatch (service i) (slice lyrics i (i + batchSize)) i)"
  shows "i \<le> length lyrics \<Longrightarrow> i mod batchSize = 0 \<Longrightarrow>
           parseLyrics_loop service lyrics i [] = map (\<lambda>k. placeholder (k + 1) (lyrics ! k)) [i..<length lyrics]"
proof (induction "length lyrics - i" arbitrary: i rule: less_induct)
  case less
  show ?case
  proof (cases "i < length lyrics")
    case True
    let ?m = "min (i + batchSize) (length lyrics)"
    have m: "i \<le> ?m" "?m \<le> length lyrics" "length lyrics - ?m < length lyrics - i"
      using True by (auto simp: batchSize_def min_def)
    have rest: "parseLyrics_loop service lyrics (i + batchSize) []
                  = map (\<lambda>k. placeholder (k + 1) (lyrics ! k)) [?m..<length lyrics]"
    proof (cases "i + batchSize \<le> length lyrics")
      case le: True
      then have "?m = i + batchSize" by simp
      moreover have "(i + batchSize) mod batchSize = 0"
        using less.prems(2) by simp
      ultimately show ?thesis
        using less.hyps [of "i + batchSize"] le m(3) by simp
    next
      case gt: False
      then show ?thesis by (simp add: loop_done min_def)
    qed
    have "[i..<length lyrics] = [i..<?m] @ [?m..<length lyrics]"
      using m by (metis le_Suc_ex upt_add_eq_append)
    then show ?thesis
      using True rest assms [OF True less.prems(2)] by (subst loop_rec) (simp add: failed_batch_results)
  next
    case False
    with less.prems show ?thesis by (simp add: loop_done)
  qed
qed

lemma parseLyricsBatch_throws_iff:
  "isl (parseLyricsBatch llm batch startIndex) \<longleftrightarrow>
     (case llm batch of
        Rejected \<Rightarrow> True
      | Completion content \<Rightarrow>
          \<not> truthy (extractJSON (content_text content))
          \<or> (case get_prop (extractJSON (content_text content)) (js ''lines'') of
                None \<Rightarrow> False
              | Some (JArr lines) \<Rightarrow> False
              | Some v \<Rightarrow> truthy v))"
  by (simp add: parseLyricsBatch_def Let_def split: completion.splits option.splits json.splits
      del: of_char_Char)

lemma loop_batch_position:
  assumes "\<And>k. k < i \<Longrightarrow> k mod batchSize = 0 \<Longrightarrow> length (batch_results service lyrics k) = batchSize"
    and "i < length lyrics" and "i mod batchSize = 0"
  shows "i0 \<le> i \<Longrightarrow> i0 mod batchSize = 0 \<Longrightarrow>
           \<exists>pre post. parseLyrics_loop service lyrics i0 [] = pre @ batch_results service lyrics i @ post
              \<and> length pre = i - i0"
proof (induction "i - i0" arbitrary: i0 rule: less_induct)
  case less
  show ?case
  proof (cases "i0 = i")
    case True
    have "parseLyrics_loop service lyrics i []
            = [] @ batch_results service lyrics i @ parseLyrics_loop service lyrics (i + batchSize) []"
      using assms(2) by (subst loop_rec) simp
    then show ?thesis using True by (metis list.size(3) diff_self_eq_0)
  next
    case False
    with less.prems have lt: "i0 < i" by simp
    have "(i - i0) mod batchSize = 0"
      using lt less.prems(2) assms(3) by (simp add: batchSize_def) presburger
    then have "batchSize \<le> i - i0"
      using lt by (simp add: batchSize_def) presburger
    then have next_ok: "i0 + batchSize \<le> i" "(i0 + batchSize) mod batchSize = 0"
      "i - (i0 + batchSize) < i - i0"
      using less.prems(2) lt by (simp_all add: batchSize_def)
    from less.hyps [OF next_ok(3) next_ok(1) next_ok(2)]
    obtain pre post where rest:
      "parseLyrics_loop service lyrics (i0 + batchSize) [] = pre @ batch_results service lyrics i @ post"
      "length pre = i - (i0 + batchSize)"
      by blast
    have len: "length (batch_results service lyrics i0) = batchSize"
      using assms(1) [OF lt less.prems(2)] .
    have "i0 < length lyrics" using lt assms(2) by simp
    with rest(1) have "parseLyrics_loop service lyrics i0 []
         = (batch_results service lyrics i0 @ pre) @ batch_results service lyrics i @ post"
      by (subst loop_rec) simp
    moreover have "length (batch_results service lyrics i0 @ pre) = i - i0"
      using len rest(2) next_ok(1) by simp
    ultimately show ?thesis by blast
  qed
qed

lemma parseLyrics_nth_batch:
  assumes "\<And>k. k < i \<Longrightarrow> k mod batchSize = 0 \<Longrightarrow> length (batch_results service lyrics k) = batchSize"
    and "i < length lyrics" and "i mod batchSize = 0"
    and "j < length (batch_results service lyrics i)"
  shows "i + j < length (parseLyrics service lyrics)"
    and "parseLyrics service lyrics ! (i + j) = batch_results service lyrics i ! j"
proof -
  from loop_batch_position [OF assms(1-3), of 0]
  obtain pre post where p: "parseLyrics service lyrics = pre @ batch_results service lyrics i @ post"
      "length pre = i"
    by (auto simp: parseLyrics_def)
  show "i + j < length (parseLyrics service lyrics)"
    using p assms(4) by simp
  show "parseLyrics service lyrics ! (i + j) = batch_results service lyrics i ! j"
    using p assms(4) by (simp add: nth_append)
qed

lemma stored_placeholder:
  assumes "\<And>k. k < i \<Longrightarrow> k mod batchSize = 0 \<Longrightarrow> length (batch_results service lyrics k) = batchSize"
    and "i < length lyrics" and "i mod batchSize = 0"
    and "isl (parseLyricsBatch (service i) (slice lyrics i (i + batchSize)) i)"
    and "j < batchSize" and "i + j < length lyrics"
  shows "i + j < length (parseLyrics service lyrics)"
    and "parseLyrics service lyrics ! (i + j) = placeholder (i + j + 1) (lyrics ! (i + j))"
proof -
  have b: "batch_results service lyrics i
             = map (\<lambda>k. placeholder (k + 1) (lyrics ! k)) [i..<min (i + batchSize) (length lyrics)]"
    using assms(2,4) by (rule failed_batch_results)
  have j: "j < length (batch_results service lyrics i)"
    using assms(5,6) by (simp add: b)
  have "i + j < min (i + batchSize) (length lyrics)"
    using assms(5,6) by simp
  then have e: "batch_results service lyrics i ! j = placeholder (i + j + 1) (lyrics ! (i + j))"
    using j by (simp add: b del: upt_Suc)
  show "i + j < length (parseLyrics service lyrics)"
    using parseLyrics_nth_batch(1) [OF assms(1-3) j] .
  show "parseLyrics service lyrics ! (i + j) = placeholder (i + j + 1) (lyrics ! (i + j))"
    using parseLyrics_nth_batch(2) [OF assms(1-3) j] e by simp
qed


text \<open>
  Claim C2. A batch whose call to \<open>parseLyricsBatch\<close> throws does not abort \<open>parseLyrics\<close>:
  the result holds, for each line of that batch and in their order, one placeholder with
  the original line as \<open>contentJa\<close>, the empty translation, \<open>[]\<close> as furigana and as
  tokens, and the line's global number. When each batch before it contributed one record
  for each of its eight lines, the placeholder of a line stands at the index of that
  line. When every batch fails the result is exactly the placeholders of all the lines.
  \<open>parseLyricsBatch\<close> throws when the call is rejected or no JSON can be extracted from
  the reply, and in general exactly when the call is rejected, the extracted value is
  falsy, or its \<open>lines\<close> is truthy and not an array.
\<close>

theorem parseLyrics_failed_batch_placeholders:
  "(i mod batchSize = 0 \<and> i < length lyrics
      \<and> isl (parseLyricsBatch (service i) (slice lyrics i (i + batchSize)) i)
      \<longrightarrow> (\<exists>pre post. parseLyrics service lyrics
             = pre @ map (\<lambda>k. placeholder (k + 1) (lyrics ! k)) [i..<min (i + batchSize) (length lyrics)]
                 @ post))
   \<and> (i mod batchSize = 0 \<and> i < length lyrics
      \<and> isl (parseLyricsBatch (service i) (slice lyrics i (i + batchSize)) i)
      \<and> (\<forall>k<i. k mod batchSize = 0 \<longrightarrow> length (batch_results service lyrics k) = batchSize)
      \<and> j < batchSize \<and> i + j < length lyrics
      \<longrightarrow> i + j < length (parseLyrics service lyrics)
          \<and> parseLyrics service lyrics ! (i + j) = placeholder (i + j + 1) (lyrics ! (i + j)))
   \<and> ((\<forall>i. i < length lyrics \<and> i mod batchSize = 0
             \<longrightarrow> isl (parseLyricsBatch (service i) (slice lyrics i (i + batchSize)) i))
      \<longrightarrow> parseLyrics service lyrics = map (\<lambda>k. placeholder (k + 1) (lyrics ! k)) [0..<length lyrics])
   \<and> (call_failed (llm batch) \<longrightarrow> isl (parseLyricsBatch llm batch startIndex))
   \<and> (isl (parseLyricsBatch llm batch startIndex) \<longleftrightarrow>
        (case llm batch of
           Rejected \<Rightarrow> True
         | Completion content \<Rightarrow>
             \<not> truthy (extractJSON (content_text content))
             \<or> (case get_prop (extractJSON (content_text content)) (js ''lines'') of
                   None \<Rightarrow> False
                 | Some (JArr lines) \<Rightarrow> False
                 | Some v \<Rightarrow> truthy v)))
   \<and> get_prop (placeholder n contentJa) (js ''lineNumber'') = Some (JNum (of_nat n))
   \<and> get_prop (placeholder n contentJa) (js ''contentJa'') = Some (JStr contentJa)
   \<and> get_prop (placeholder n contentJa) (js ''contentZh'') = Some (JStr [])
   \<and> get_prop (placeholder n contentJa) (js ''furigana'') = Some (JStr (js ''[]''))
   \<and> get_prop (placeholder n contentJa) (js ''tokens'') = Some (JStr (js ''[]''))"
proof (intro conjI impI)
  assume a: "i mod batchSize = 0 \<and> i < length lyrics
      \<and> isl (parseLyricsBatch (service i) (slice lyrics i (i + batchSize)) i)"
  from loop_contains_failed_batch [where ?i0.0 = i and i = 0 and service = service and lyrics = lyrics] a
  show "\<exists>pre post. parseLyrics service lyrics
             = pre @ map (\<lambda>k. placeholder (k + 1) (lyrics ! k)) [i..<min (i + batchSize) (length lyrics)]
                 @ post"
    by (simp add: parseLyrics_def)
next
  assume a: "i mod batchSize = 0 \<and> i < length lyrics
      \<and> isl (parseLyricsBatch (service i) (slice lyrics i (i + batchSize)) i)
      \<and> (\<forall>k<i. k mod batchSize = 0 \<longrightarrow> length (batch_results service lyrics k) = batchSize)
      \<and> j < batchSize \<and> i + j < length lyrics"
  then have al: "\<And>k. k < i \<Longrightarrow> k mod batchSize = 0 \<Longrightarrow> length (batch_results service lyrics k) = batchSize"
    by simp
  from a have r: "i < length lyrics" "i mod batchSize = 0"
    "isl (parseLyricsBatch (service i) (slice lyrics i (i + batchSize)) i)"
    "j < batchSize" "i + j < length lyrics"
    by simp_all
  show "i + j < length (parseLyrics service lyrics)"
    using al r by (rule stored_placeholder(1))
  show "parseLyrics service lyrics ! (i + j) = placeholder (i + j + 1) (lyrics ! (i + j))"
    using al r by (rule stored_placeholder(2))
next
  assume "\<forall>i. i < length lyrics \<and> i mod batchSize = 0
             \<longrightarrow> isl (parseLyricsBatch (service i) (slice lyrics i (i + batchSize)) i)"
  then have "\<And>i. i < length lyrics \<Longrightarrow> i mod batchSize = 0 \<Longrightarrow>
             isl (parseLyricsBatch (service i) (slice lyrics i (i + batchSize)) i)"
    by simp
  from loop_all_failed [OF this, of 0]
  show "parseLyrics service lyrics = map (\<lambda>k. placeholder (k + 1) (lyrics ! k)) [0..<length lyrics]"
    by (simp add: parseLyrics_def)
next
  assume "call_failed (llm batch)"
  then show "isl (parseLyricsBatch llm batch startIndex)"
    by (simp add: call_failed_batch)
next
  show "isl (parseLyricsBatch llm batch startIndex) \<longleftrightarrow>
        (case llm batch of
           Rejected \<Rightarrow> True
         | Completion content \<Rightarrow>
             \<not> truthy (extractJSON (content_text content))
             \<or> (case get_prop (extractJSON (content_text content)) (js ''lines'') of
                   None \<Rightarrow> False
                 | Some (JArr lines) \<Rightarrow> False
                 | Some v \<Rightarrow> truthy v))"
    by (rule parseLyricsBatch_throws_iff)
qed (simp_all add: placeholder_def)

text \<open>
  Nine lines make two batches. First the second batch fails, on a \<open>lines\<close> that is a
  string, after eight records of the first batch; then the first batch fails, on the
  reply \<open>false\<close>, and the record of the second batch follows its eight placeholders;
  last every call is rejected.
\<close>

theorem parseLyrics_failed_batch_placeholders_witness:
  "8 mod batchSize = 0 \<and> 8 < length nine_lines
   \<and> isl (parseLyricsBatch (second_batch_not_array 8) (slice nine_lines 8 (8 + batchSize)) 8)
   \<and> length (batch_results second_batch_not_array nine_lines 0) = batchSize
   \<and> (\<exists>pre post. parseLyrics second_batch_not_array nine_lines = pre @ [placeholder 9 (js ''i'')] @ post)
   \<and> parseLyrics second_batch_not_array nine_lines ! 8 = placeholder 9 (js ''i'')
   \<and> length (parseLyrics second_batch_not_array nine_lines) = 9
   \<and> isl (parseLyricsBatch (first_batch_false 0) (slice nine_lines 0 (0 + batchSize)) 0)
   \<and> (\<exists>pre post. parseLyrics first_batch_false nine_lines
         = pre @ [placeholder 1 (js ''a''), placeholder 2 (js ''b''), placeholder 3 (js ''c''),
                  placeholder 4 (js ''d''), placeholder 5 (js ''e''), placeholder 6 (js ''f''),
                  placeholder 7 (js ''g''), placeholder 8 (js ''h'')] @ post)
   \<and> parseLyrics first_batch_false nine_lines
         = [placeholder 1 (js ''a''), placeholder 2 (js ''b''), placeholder 3 (js ''c''),
            placeholder 4 (js ''d''), placeholder 5 (js ''e''), placeholder 6 (js ''f''),
            placeholder 7 (js ''g''), placeholder 8 (js ''h''),
            JObj [(js ''contentZh'', JStr (js ''I'')), (js ''lineNumber'', JNum 9)]]
   \<and> isl (parseLyricsBatch (every_call_rejected 0) (slice nine_lines 0 (0 + batchSize)) 0)
   \<and> isl (parseLyricsBatch (every_call_rejected 8) (slice nine_lines 8 (8 + batchSize)) 8)
   \<and> parseLyrics every_call_rejected nine_lines
       = [placeholder 1 (js ''a''), placeholder 2 (js ''b''), placeholder 3 (js ''c''),
          placeholder 4 (js ''d''), placeholder 5 (js ''e''), placeholder 6 (js ''f''),
          placeholder 7 (js ''g''), placeholder 8 (js ''h''), placeholder 9 (js ''i'')]"
proof -
  have h1: "8 mod batchSize = 0 \<and> 8 < length nine_lines
      \<and> isl (parseLyricsBatch (second_batch_not_array 8) (slice nine_lines 8 (8 + batchSize)) 8)"
    by (simp add: batchSize_def nine_lines_def parseLyricsBatch_def second_batch_not_array_def json_eval)
  have len0: "length (batch_results second_batch_not_array nine_lines 0) = batchSize"
    by (simp add: parse_eval second_batch_not_array_def eight_entries_def nine_lines_def json_eval)
  have al: "\<forall>k<8. k mod batchSize = 0 \<longrightarrow> length (batch_results second_batch_not_array nine_lines k) = batchSize"
  proof (intro allI impI)
    fix k :: nat
    assume "k < 8" and "k mod batchSize = 0"
    then have "k = 0" by (simp add: batchSize_def)
    then show "length (batch_results second_batch_not_array nine_lines k) = batchSize"
      using len0 by simp
  qed
  have j: "(0::nat) < batchSize \<and> 8 + 0 < length nine_lines"
    by (simp add: batchSize_def nine_lines_def)
  have h0: "0 mod batchSize = 0 \<and> 0 < length nine_lines
      \<and> isl (parseLyricsBatch (first_batch_false 0) (slice nine_lines 0 (0 + batchSize)) 0)"
    by (simp add: batchSize_def nine_lines_def parseLyricsBatch_def first_batch_false_def json_eval)
  have h2: "\<forall>i. i < length nine_lines \<and> i mod batchSize = 0
         \<longrightarrow> isl (parseLyricsBatch (every_call_rejected i) (slice nine_lines i (i + batchSize)) i)"
    by (simp add: parseLyricsBatch_def every_call_rejected_def)
  have seg: "map (\<lambda>k. placeholder (k + 1) (nine_lines ! k)) [8..<min (8 + batchSize) (length nine_lines)]
               = [placeholder 9 (js ''i'')]"
    by (simp add: nine_lines_def batchSize_def upt_rec)
  have seg0: "map (\<lambda>k. placeholder (k + 1) (nine_lines ! k)) [0..<min (0 + batchSize) (length nine_lines)]
               = [placeholder 1 (js ''a''), placeholder 2 (js ''b''), placeholder 3 (js ''c''),
                  placeholder 4 (js ''d''), placeholder 5 (js ''e''), placeholder 6 (js ''f''),
                  placeholder 7 (js ''g''), placeholder 8 (js ''h'')]"
    by (simp add: nine_lines_def batchSize_def upt_rec placeholder_def)
  have all: "map (\<lambda>k. placeholder (k + 1) (nine_lines ! k)) [0..<length nine_lines]
       = [placeholder 1 (js ''a''), placeholder 2 (js ''b''), placeholder 3 (js ''c''),
          placeholder 4 (js ''d''), placeholder 5 (js ''e''), placeholder 6 (js ''f''),
          placeholder 7 (js ''g''), placeholder 8 (js ''h''), placeholder 9 (js ''i'')]"
    by (simp add: nine_lines_def upt_rec eval_nat_numeral)
  have "\<exists>pre post. parseLyrics second_batch_not_array nine_lines
          = pre @ map (\<lambda>k. placeholder (k + 1) (nine_lines ! k)) [8..<min (8 + batchSize) (length nine_lines)] @ post"
    using parseLyrics_failed_batch_placeholders [of 8 nine_lines second_batch_not_array, THEN conjunct1] h1
    by (rule mp)
  then have c1: "\<exists>pre post. parseLyrics second_batch_not_array nine_lines = pre @ [placeholder 9 (js ''i'')] @ post"
    by (simp only: seg)
  have hyp: "8 mod batchSize = 0 \<and> 8 < length nine_lines
      \<and> isl (parseLyricsBatch (second_batch_not_array 8) (slice nine_lines 8 (8 + batchSize)) 8)
      \<and> (\<forall>k<8. k mod batchSize = 0 \<longrightarrow> length (batch_results second_batch_not_array nine_lines k) = batchSize)
      \<and> 0 < batchSize \<and> 8 + 0 < length nine_lines"
    by (intro conjI) (rule h1 [THEN conjunct1] h1 [THEN conjunct2, THEN conjunct1]
          h1 [THEN conjunct2, THEN conjunct2] al j [THEN conjunct1] j [THEN conjunct2])+
  have "8 + 0 < length (parseLyrics second_batch_not_array nine_lines)
      \<and> parseLyrics second_batch_not_array nine_lines ! (8 + 0) = placeholder (8 + 0 + 1) (nine_lines ! (8 + 0))"
    using parseLyrics_failed_batch_placeholders
            [of 8 nine_lines second_batch_not_array 0, THEN conjunct2, THEN conjunct1] hyp
    by (rule mp)
  then have c1': "parseLyrics second_batch_not_array nine_lines ! 8 = placeholder 9 (js ''i'')"
    by (simp add: nine_lines_def)
  have c1'': "length (parseLyrics second_batch_not_array nine_lines) = 9"
    by (simp add: parse_eval second_batch_not_array_def eight_entries_def nine_lines_def json_eval upt_rec)
  have "\<exists>pre post. parseLyrics first_batch_false nine_lines
          = pre @ map (\<lambda>k. placeholder (k + 1) (nine_lines ! k)) [0..<min (0 + batchSize) (length nine_lines)] @ post"
    using parseLyrics_failed_batch_placeholders [of 0 nine_lines first_batch_false, THEN conjunct1] h0
    by (rule mp)
  then have c0: "\<exists>pre post. parseLyrics first_batch_false nine_lines
         = pre @ [placeholder 1 (js ''a''), placeholder 2 (js ''b''), placeholder 3 (js ''c''),
                  placeholder 4 (js ''d''), placeholder 5 (js ''e''), placeholder 6 (js ''f''),
                  placeholder 7 (js ''g''), placeholder 8 (js ''h'')] @ post"
    by (simp only: seg0)
  have c0': "parseLyrics first_batch_false nine_lines
         = [placeholder 1 (js ''a''), placeholder 2 (js ''b''), placeholder 3 (js ''c''),
            placeholder 4 (js ''d''), placeholder 5 (js ''e''), placeholder 6 (js ''f''),
            placeholder 7 (js ''g''), placeholder 8 (js ''h''),
            JObj [(js ''contentZh'', JStr (js ''I'')), (js ''lineNumber'', JNum 9)]]"
    by (simp add: parse_eval first_batch_false_def nine_lines_def json_eval upt_rec)
  have "parseLyrics every_call_rejected nine_lines
          = map (\<lambda>k. placeholder (k + 1) (nine_lines ! k)) [0..<length nine_lines]"
    using parseLyrics_failed_batch_placeholders
            [of 0 nine_lines every_call_rejected, THEN conjunct2, THEN conjunct2, THEN conjunct1] h2
    by (rule mp)
  then have c2: "parseLyrics every_call_rejected nine_lines
       = [placeholder 1 (js ''a''), placeholder 2 (js ''b''), placeholder 3 (js ''c''),
          placeholder 4 (js ''d''), placeholder 5 (js ''e''), placeholder 6 (js ''f''),
          placeholder 7 (js ''g''), placeholder 8 (js ''h''), placeholder 9 (js ''i'')]"
    by (simp only: all)
  have r0: "isl (parseLyricsBatch (every_call_rejected 0) (slice nine_lines 0 (0 + batchSize)) 0)"
    and r8: "isl (parseLyricsBatch (every_call_rejected 8) (slice nine_lines 8 (8 + batchSize)) 8)"
    by (simp_all add: parseLyricsBatch_def every_call_rejected_def)
  show ?thesis
    by (intro conjI) (rule h1 [THEN conjunct1] h1 [THEN conjunct2, THEN conjunct1]
          h1 [THEN conjunct2, THEN conjunct2] len0 c1 c1' c1'' h0 [THEN conjunct2, THEN conjunct2]
          c0 c0' r0 r8 c2)+
qed

lemma map_of_obj_set: "map_of (obj_set ms k v) k = Some v"
  by (induction ms) auto

lemma lineNumber_renumber:
  "map (\<lambda>r. get_prop r (js ''lineNumber'')) (renumber startIndex lines)
     = map (\<lambda>j. Some (JNum (of_nat (startIndex + j + 1)))) [0..<length lines]"
  by (rule nth_equalityI) (simp_all add: renumber_def nth_enumerate_eq map_of_obj_set del: of_char_Char)

lemma lineNumber_placeholders:
  "map (\<lambda>r. get_prop r (js ''lineNumber'')) (placeholders batch startIndex)
     = map (\<lambda>j. Some (JNum (of_nat (startIndex + j + 1)))) [0..<length batch]"
  by (simp add: placeholders_def placeholder_def)

lemma length_renumber: "length (renumber startIndex lines) = length lines"
  by (simp add: renumber_def)

lemma lineNumber_batch_results:
  "map (\<lambda>r. get_prop r (js ''lineNumber'')) (batch_results service lyrics i)
     = map (\<lambda>j. Some (JNum (of_nat (i + j + 1)))) [0..<length (batch_results service lyrics i)]"
proof (cases "parseLyricsBatch (service i) (slice lyrics i (i + batchSize)) i")
  case (Inl e)
  then show ?thesis
    by (simp only: batch_results_def sum.case lineNumber_placeholders) (simp add: placeholders_def)
next
  case (Inr rs)
  then obtain ls where "rs = renumber i ls"
    by (auto simp: parseLyricsBatch_def Let_def split: completion.splits if_splits option.splits json.splits)
  with Inr show ?thesis
    by (simp only: batch_results_def sum.case lineNumber_renumber length_renumber)
qed

lemma loop_aligned:
  assumes "\<And>i. i < length lyrics \<Longrightarrow> i mod batchSize = 0 \<Longrightarrow>
             length (batch_results service lyrics i) = length (slice lyrics i (i + batchSize))"
  shows "i \<le> length lyrics \<Longrightarrow> i mod batchSize = 0 \<Longrightarrow>
           map (\<lambda>r. get_prop r (js ''lineNumber'')) (parseLyrics_loop service lyrics i [])
             = map (\<lambda>k. Some (JNum (of_nat (k + 1)))) [i..<length lyrics]"
proof (induction "length lyrics - i" arbitrary: i rule: less_induct)
  case less
  show ?case
  proof (cases "i < length lyrics")
    case True
    let ?m = "min (i + batchSize) (length lyrics)"
    have m: "i \<le> ?m" "?m \<le> length lyrics" "length lyrics - ?m < length lyrics - i"
      using True by (auto simp: batchSize_def min_def)
    have len: "length (batch_results service lyrics i) = ?m - i"
      using assms [OF True less.prems(2)] True by (auto simp: slice_def min_def)
    have "map (\<lambda>j. Some (JNum (of_nat (i + j + 1)))) [0..<?m - i]
            = map (\<lambda>k. Some (JNum (of_nat (k + 1)))) [i..<?m]"
    proof (rule nth_equalityI)
      show "length (map (\<lambda>j. Some (JNum (of_nat (i + j + 1)))) [0..<?m - i])
              = length (map (\<lambda>k. Some (JNum (of_nat (k + 1)))) [i..<?m])"
        by simp
    next
      fix j
      assume "j < length (map (\<lambda>j. Some (JNum (of_nat (i + j + 1)))) [0..<?m - i])"
      then have "j < ?m - i" by simp
      then have "0 + j < ?m - i" "i + j < ?m" by (auto simp: min_def split: if_splits)
      then show "map (\<lambda>j. Some (JNum (of_nat (i + j + 1)))) [0..<?m - i] ! j
              = map (\<lambda>k. Some (JNum (of_nat (k + 1)))) [i..<?m] ! j"
        by (simp del: upt_Suc)
    qed
    then have batch: "map (\<lambda>r. get_prop r (js ''lineNumber'')) (batch_results service lyrics i)
            = map (\<lambda>k. Some (JNum (of_nat (k + 1)))) [i..<?m]"
      by (simp only: lineNumber_batch_results len)
    have rest: "map (\<lambda>r. get_prop r (js ''lineNumber'')) (parseLyrics_loop service lyrics (i + batchSize) [])
                  = map (\<lambda>k. Some (JNum (of_nat (k + 1)))) [?m..<length lyrics]"
    proof (cases "i + batchSize \<le> length lyrics")
      case le: True
      then have "?m = i + batchSize" by simp
      moreover have "(i + batchSize) mod batchSize = 0"
        using less.prems(2) by simp
      ultimately show ?thesis
        using less.hyps [of "i + batchSize"] le m(3) by simp
    next
      case gt: False
      then show ?thesis by (simp add: loop_done min_def)
    qed
    have "[i..<length lyrics] = [i..<?m] @ [?m..<length lyrics]"
      using m by (metis le_Suc_ex upt_add_eq_append)
    then have "map (\<lambda>k. Some (JNum (of_nat (k + 1)))) [i..<length lyrics]
                 = map (\<lambda>r. get_prop r (js ''lineNumber'')) (batch_results service lyrics i)
                   @ map (\<lambda>r. get_prop r (js ''lineNumber'')) (parseLyrics_loop service lyrics (i + batchSize) [])"
      by (simp only: batch rest map_append)
    then show ?thesis
      using True by (subst loop_rec) (simp del: of_char_Char)
  next
    case False
    with less.prems show ?thesis by (simp add: loop_done)
  qed
qed

lemma parseLyrics_aligned:
  assumes "\<And>i. i < length lyrics \<Longrightarrow> i mod batchSize = 0 \<Longrightarrow>
             length (batch_results service lyrics i) = length (slice lyrics i (i + batchSize))"
  shows "map (\<lambda>r. get_prop r (js ''lineNumber'')) (parseLyrics service lyrics)
           = map (\<lambda>k. Some (JNum (of_nat (k + 1)))) [0..<length lyrics]"
    and "length (parseLyrics service lyrics) = length lyrics"
proof -
  show a: "map (\<lambda>r. get_prop r (js ''lineNumber'')) (parseLyrics service lyrics)
           = map (\<lambda>k. Some (JNum (of_nat (k + 1)))) [0..<length lyrics]"
    using loop_aligned [OF assms, of 0] by (simp add: parseLyrics_def)
  from arg_cong [OF a, of length] show "length (parseLyrics service lyrics) = length lyrics"
    by simp
qed

text \<open>
  Claim C1 at a reply that is valid JSON and one entry short. The first batch of eight
  lines is answered with seven entries: \<open>parseLyrics\<close> returns eight records for nine
  lines, numbered 1 to 7 and 9, and from the eighth position on a record no longer
  stands at the index of its line. The lemma before this one gives the condition under
  which the numbering is right: every batch that does not fail returns as many entries
  as it has lines.
\<close>

theorem parseLyrics_short_reply_misnumbers:
  "length nine_lines = 9
   \<and> length (parseLyrics seven_of_eight nine_lines) = 8
   \<and> map (\<lambda>r. get_prop r (js ''lineNumber'')) (parseLyrics seven_of_eight nine_lines)
       = [Some (JNum 1), Some (JNum 2), Some (JNum 3), Some (JNum 4), Some (JNum 5),
          Some (JNum 6), Some (JNum 7), Some (JNum 9)]
   \<and> map (\<lambda>r. get_prop r (js ''contentZh'')) (parseLyrics seven_of_eight nine_lines)
       = [Some (JStr (js ''A'')), Some (JStr (js ''B'')), Some (JStr (js ''C'')), Some (JStr (js ''D'')),
          Some (JStr (js ''E'')), Some (JStr (js ''F'')), Some (JStr (js ''GH'')), Some (JStr (js ''I''))]"
proof -
  have "parseLyrics seven_of_eight nine_lines
      = [JObj [(js ''contentZh'', JStr (js ''A'')), (js ''lineNumber'', JNum 1)],
         JObj [(js ''contentZh'', JStr (js ''B'')), (js ''lineNumber'', JNum 2)],
         JObj [(js ''contentZh'', JStr (js ''C'')), (js ''lineNumber'', JNum 3)],
         JObj [(js ''contentZh'', JStr (js ''D'')), (js ''lineNumber'', JNum 4)],
         JObj [(js ''contentZh'', JStr (js ''E'')), (js ''lineNumber'', JNum 5)],
         JObj [(js ''contentZh'', JStr (js ''F'')), (js ''lineNumber'', JNum 6)],
         JObj [(js ''contentZh'', JStr (js ''GH'')), (js ''lineNumber'', JNum 7)],
         JObj [(js ''contentZh'', JStr (js ''I'')), (js ''lineNumber'', JNum 9)]]"
    by (simp add: parse_eval seven_of_eight_def nine_lines_def json_eval upt_rec)
  then show ?thesis
    by (simp add: nine_lines_def)
qed

section \<open>Properties of the stored furigana\<close>

lemma map_of_obj_set_other: "k' \<noteq> k \<Longrightarrow> map_of (obj_set ms k v) k' = map_of ms k'"
  by (induction ms) auto

lemma get_prop_spread: "get_prop e k = Some v \<Longrightarrow> map_of (spread e) k = Some v"
  by (cases e) simp_all

lemma get_prop_renumber:
  assumes "j < length entries" and "k \<noteq> js ''lineNumber''" and "entries ! j = JObj ms"
  shows "get_prop (renumber i entries ! j) k = get_prop (entries ! j) k"
  using assms
  by (simp add: renumber_def nth_enumerate_eq map_of_obj_set_other del: of_char_Char)

lemma truthy_renumber: "j < length entries \<Longrightarrow> truthy (renumber i entries ! j)"
  by (simp add: renumber_def nth_enumerate_eq)

lemma batch_results_reply:
  assumes "service i (slice lyrics i (i + batchSize)) = Completion content"
    and "get_prop (extractJSON (content_text content)) (js ''lines'') = Some (JArr entries)"
  shows "batch_results service lyrics i = renumber i entries"
  using assms
  by (cases "extractJSON (content_text content)")
     (simp_all add: batch_results_def parseLyricsBatch_def del: of_char_Char)

lemma import_line_updates_nth:
  "index < n \<Longrightarrow> index < length aiParsed \<Longrightarrow> truthy (aiParsed ! index) \<Longrightarrow>
     import_line_updates toString aiParsed n ! index
       = Some \<lparr>contentZh = get_prop (aiParsed ! index) (js ''contentZh''),
                furigana = furiganaArray toString (aiParsed ! index)\<rparr>"
  by (simp add: import_line_updates_def Let_def del: of_char_Char)

lemma stored_entry:
  assumes "\<And>k. k < i \<Longrightarrow> k mod batchSize = 0 \<Longrightarrow> length (batch_results service lyrics k) = batchSize"
    and "i < length lyrics" and "i mod batchSize = 0"
    and "service i (slice lyrics i (i + batchSize)) = Completion content"
    and "get_prop (extractJSON (content_text content)) (js ''lines'') = Some (JArr entries)"
    and "j < length entries" and "i + j < n" and "entries ! j = JObj ms"
  shows "import_line_updates toString (parseLyrics service lyrics) n ! (i + j)
           = Some \<lparr>contentZh = get_prop (entries ! j) (js ''contentZh''),
                    furigana = furiganaArray toString (entries ! j)\<rparr>"
proof -
  have b: "batch_results service lyrics i = renumber i entries"
    using assms(4,5) by (rule batch_results_reply)
  then have j: "j < length (batch_results service lyrics i)"
    using assms(6) by (simp add: length_renumber)
  have n: "parseLyrics service lyrics ! (i + j) = renumber i entries ! j"
    and l: "i + j < length (parseLyrics service lyrics)"
    using parseLyrics_nth_batch [OF assms(1-3) j] b by simp_all
  have f: "furiganaArray toString (renumber i entries ! j) = furiganaArray toString (entries ! j)"
    using get_prop_renumber [OF assms(6) _ assms(8), of "js ''furigana''" i]
    by (simp add: furiganaArray_def del: of_char_Char) 
  have z: "get_prop (renumber i entries ! j) (js ''contentZh'') = get_prop (entries ! j) (js ''contentZh'')"
    using get_prop_renumber [OF assms(6) _ assms(8), of "js ''contentZh''" i] by simp
  show ?thesis
    using import_line_updates_nth [OF assms(7) l, of toString] truthy_renumber [OF assms(6), of i] n f z
    by simp
qed

text \<open>
  Claim C4, as amended. No offset is checked on the way to the table. Take the batch
  that starts at line \<open>i\<close>, each batch before it having contributed one record for each
  of its eight lines, and the entry \<open>j\<close> of its reply. When the entry carries its
  furigana as a string, the import route hands to \<open>updateLine\<close> of line \<open>i + j\<close> what
  \<open>JSON.parse\<close> makes of that string, whatever the offsets in it (nothing when the
  string is empty, is \<open>[]\<close> or does not parse). When the entry carries its furigana as
  anything else, an array of spans included, the route parses the text that \<open>ToString\<close>
  makes of it. When the batch fails, the line gets the empty translation and no
  furigana. \<open>parseSingleLine\<close> returns the \<open>furigana\<close> array of the reply as it is.
\<close>

theorem furigana_stored_as_returned:
  "(i mod batchSize = 0 \<and> i < length lyrics
      \<and> (\<forall>k<i. k mod batchSize = 0 \<longrightarrow> length (batch_results service lyrics k) = batchSize)
      \<and> service i (slice lyrics i (i + batchSize)) = Completion content
      \<and> get_prop (extractJSON (content_text content)) (js ''lines'') = Some (JArr entries)
      \<and> j < length entries \<and> i + j < n
      \<and> get_prop (entries ! j) (js ''furigana'') = Some (JStr s)
    \<longrightarrow> import_line_updates toString (parseLyrics service lyrics) n ! (i + j)
          = Some \<lparr>contentZh = get_prop (entries ! j) (js ''contentZh''),
                   furigana = (if s \<noteq> [] \<and> s \<noteq> js ''[]'' then JSON_parse s else None)\<rparr>)
   \<and> (i mod batchSize = 0 \<and> i < length lyrics
      \<and> (\<forall>k<i. k mod batchSize = 0 \<longrightarrow> length (batch_results service lyrics k) = batchSize)
      \<and> service i (slice lyrics i (i + batchSize)) = Completion content
      \<and> get_prop (extractJSON (content_text content)) (js ''lines'') = Some (JArr entries)
      \<and> j < length entries \<and> i + j < n
      \<and> get_prop (entries ! j) (js ''furigana'') = Some f \<and> (\<forall>t. f \<noteq> JStr t)
    \<longrightarrow> import_line_updates toString (parseLyrics service lyrics) n ! (i + j)
          = Some \<lparr>contentZh = get_prop (entries ! j) (js ''contentZh''),
                   furigana = (if truthy f then JSON_parse (toString f) else None)\<rparr>)
   \<and> (i mod batchSize = 0 \<and> i < length lyrics
      \<and> (\<forall>k<i. k mod batchSize = 0 \<longrightarrow> length (batch_results service lyrics k) = batchSize)
      \<and> isl (parseLyricsBatch (service i) (slice lyrics i (i + batchSize)) i)
      \<and> j < batchSize \<and> i + j < length lyrics \<and> i + j < n
    \<longrightarrow> import_line_updates toString (parseLyrics service lyrics) n ! (i + j)
          = Some \<lparr>contentZh = Some (JStr []), furigana = None\<rparr>)
   \<and> (truthy (extractJSON (content_text content))
        \<and> get_prop (extractJSON (content_text content)) (js ''furigana'') = Some (JArr spans)
      \<longrightarrow> (\<exists>r. parseSingleLine (Completion content) = Inr r \<and> sl_furigana r = JArr spans))"
proof (intro conjI impI)
  assume a: "i mod batchSize = 0 \<and> i < length lyrics
      \<and> (\<forall>k<i. k mod batchSize = 0 \<longrightarrow> length (batch_results service lyrics k) = batchSize)
      \<and> service i (slice lyrics i (i + batchSize)) = Completion content
      \<and> get_prop (extractJSON (content_text content)) (js ''lines'') = Some (JArr entries)
      \<and> j < length entries \<and> i + j < n
      \<and> get_prop (entries ! j) (js ''furigana'') = Some (JStr s)"
  then have al: "\<And>k. k < i \<Longrightarrow> k mod batchSize = 0 \<Longrightarrow> length (batch_results service lyrics k) = batchSize"
    by simp
  from a have r: "i < length lyrics" "i mod batchSize = 0"
    "service i (slice lyrics i (i + batchSize)) = Completion content"
    "get_prop (extractJSON (content_text content)) (js ''lines'') = Some (JArr entries)"
    "j < length entries" "i + j < n"
    by simp_all
  from a have f: "get_prop (entries ! j) (js ''furigana'') = Some (JStr s)"
    by simp
  then obtain ms where ms: "entries ! j = JObj ms"
    by (cases "entries ! j") simp_all
  have "furiganaArray toString (entries ! j) = (if s \<noteq> [] \<and> s \<noteq> js ''[]'' then JSON_parse s else None)"
    using f by (simp add: furiganaArray_def del: of_char_Char)
  then show "import_line_updates toString (parseLyrics service lyrics) n ! (i + j)
          = Some \<lparr>contentZh = get_prop (entries ! j) (js ''contentZh''),
                   furigana = (if s \<noteq> [] \<and> s \<noteq> js ''[]'' then JSON_parse s else None)\<rparr>"
    using stored_entry [OF al r ms, of toString] by simp
next
  assume a: "i mod batchSize = 0 \<and> i < length lyrics
      \<and> (\<forall>k<i. k mod batchSize = 0 \<longrightarrow> length (batch_results service lyrics k) = batchSize)
      \<and> service i (slice lyrics i (i + batchSize)) = Completion content
      \<and> get_prop (extractJSON (content_text content)) (js ''lines'') = Some (JArr entries)
      \<and> j < length entries \<and> i + j < n
      \<and> get_prop (entries ! j) (js ''furigana'') = Some f \<and> (\<forall>t. f \<noteq> JStr t)"
  then have al: "\<And>k. k < i \<Longrightarrow> k mod batchSize = 0 \<Longrightarrow> length (batch_results service lyrics k) = batchSize"
    by simp
  from a have r: "i < length lyrics" "i mod batchSize = 0"
    "service i (slice lyrics i (i + batchSize)) = Completion content"
    "get_prop (extractJSON (content_text content)) (js ''lines'') = Some (JArr entries)"
    "j < length entries" "i + j < n"
    by simp_all
  from a have f: "get_prop (entries ! j) (js ''furigana'') = Some f" "\<And>t. f \<noteq> JStr t"
    by simp_all
  then obtain ms where ms: "entries ! j = JObj ms"
    by (cases "entries ! j") simp_all
  have "furiganaArray toString (entries ! j) = (if truthy f then JSON_parse (toString f) else None)"
  proof (cases f)
    case (JStr t)
    with f(2) [of t] show ?thesis by (rule notE)
  qed (use f(1) in \<open>simp_all add: furiganaArray_def del: of_char_Char\<close>)
  then show "import_line_updates toString (parseLyrics service lyrics) n ! (i + j)
          = Some \<lparr>contentZh = get_prop (entries ! j) (js ''contentZh''),
                   furigana = (if truthy f then JSON_parse (toString f) else None)\<rparr>"
    using stored_entry [OF al r ms, of toString] by simp
next
  assume a: "i mod batchSize = 0 \<and> i < length lyrics
      \<and> (\<forall>k<i. k mod batchSize = 0 \<longrightarrow> length (batch_results service lyrics k) = batchSize)
      \<and> isl (parseLyricsBatch (service i) (slice lyrics i (i + batchSize)) i)
      \<and> j < batchSize \<and> i + j < length lyrics \<and> i + j < n"
  then have al: "\<And>k. k < i \<Longrightarrow> k mod batchSize = 0 \<Longrightarrow> length (batch_results service lyrics k) = batchSize"
    by simp
  from a have r: "i < length lyrics" "i mod batchSize = 0"
    "isl (parseLyricsBatch (service i) (slice lyrics i (i + batchSize)) i)"
    "j < batchSize" "i + j < length lyrics"
    by simp_all
  from a have n: "i + j < n" by simp
  have l: "i + j < length (parseLyrics service lyrics)"
    using al r by (rule stored_placeholder(1))
  have p: "parseLyrics service lyrics ! (i + j) = placeholder (i + j + 1) (lyrics ! (i + j))"
    using al r by (rule stored_placeholder(2))
  have t: "truthy (parseLyrics service lyrics ! (i + j))"
    by (simp add: p placeholder_def)
  show "import_line_updates toString (parseLyrics service lyrics) n ! (i + j)
          = Some \<lparr>contentZh = Some (JStr []), furigana = None\<rparr>"
    using import_line_updates_nth [OF n l t, of toString]
    by (simp add: p placeholder_def furiganaArray_def)
next
  assume "truthy (extractJSON (content_text content))
        \<and> get_prop (extractJSON (content_text content)) (js ''furigana'') = Some (JArr spans)"
  then show "\<exists>r. parseSingleLine (Completion content) = Inr r \<and> sl_furigana r = JArr spans"
    by (simp add: parseSingleLine_def Let_def del: of_char_Char)
qed

text \<open>
  Claim C4 as stated, at a reply whose span runs from 1 to 4 on the two-character line
  \<open>ab\<close>: the span is stored as returned, and \<open>4 \<le> 2\<close> fails.
\<close>

theorem furigana_span_out_of_bounds_counterexample:
  "import_line_updates (\<lambda>v. []) (parseLyrics span_past_end [js ''ab'']) 1
     = [Some \<lparr>contentZh = Some (JStr (js ''x'')),
              furigana = Some (JArr [JObj [(js ''word'', JStr (js ''ab'')), (js ''reading'', JStr (js ''ei'')),
                                           (js ''start'', JNum 1), (js ''end'', JNum 4)]])\<rparr>]
   \<and> length (js ''ab'') = 2
   \<and> \<not> furigana_in_bounds (js ''ab'')
         (Some (JArr [JObj [(js ''word'', JStr (js ''ab'')), (js ''reading'', JStr (js ''ei'')),
                            (js ''start'', JNum 1), (js ''end'', JNum 4)]]))"
proof -
  have \<open>parseLyrics span_past_end [js ''ab'']
      = [JObj [(js ''contentJa'', JStr (js ''ab'')), (js ''contentZh'', JStr (js ''x'')),
               (js ''furigana'', JStr (js (''[{"word":"ab","reading":"ei","start":1,"end":4}]''))),
               (js ''tokens'', JStr (js ''[]'')), (js ''lineNumber'', JNum 1)]]\<close>
    by (simp add: parse_eval span_past_end_def escq_def json_eval)
  then show ?thesis
    by (simp add: import_line_updates_def furiganaArray_def span_in_bounds_def json_eval)
qed

text \<open>
  The ninth of nine lines, with its furigana as a string in the second reply; a line
  with its furigana as an array, which \<open>ToString\<close> turns into \<open>[object Object]\<close>; the
  ninth line when the second batch fails; and a single-line reply with one span.
\<close>

theorem furigana_stored_as_returned_witness:
  \<open>8 mod batchSize = 0 \<and> 8 < length nine_lines
   \<and> length (batch_results eight_then_span nine_lines 0) = batchSize
   \<and> import_line_updates (\<lambda>v. js ''[object Object]'') (parseLyrics eight_then_span nine_lines) 9 ! 8
       = Some \<lparr>contentZh = Some (JStr (js ''I'')),
                furigana = Some (JArr [JObj [(js ''start'', JNum 0), (js ''end'', JNum 1)]])\<rparr>
   \<and> import_line_updates (\<lambda>v. js ''[object Object]'') (parseLyrics array_furigana [js ''ab'']) 1 ! 0
       = Some \<lparr>contentZh = Some (JStr (js ''x'')), furigana = None\<rparr>
   \<and> length (batch_results second_batch_not_array nine_lines 0) = batchSize
   \<and> isl (parseLyricsBatch (second_batch_not_array 8) (slice nine_lines 8 (8 + batchSize)) 8)
   \<and> import_line_updates (\<lambda>v. js ''[object Object]'') (parseLyrics second_batch_not_array nine_lines) 9 ! 8
       = Some \<lparr>contentZh = Some (JStr []), furigana = None\<rparr>
   \<and> truthy (extractJSON (content_text (Some (js ''{"furigana":[{"start":3,"end":9}]}''))))
   \<and> (\<exists>r. parseSingleLine (Completion (Some (js ''{"furigana":[{"start":3,"end":9}]}''))) = Inr r
         \<and> sl_furigana r = JArr [JObj [(js ''start'', JNum 3), (js ''end'', JNum 9)]])\<close>
proof -
  let ?ts = "\<lambda>v::json. js ''[object Object]''"
  let ?c8 = \<open>Some (js (''{"lines":[{"contentZh":"I","furigana":"[{'' @ escq ''start'' @ '':0,''
                @ escq ''end'' @ '':1}]"}]}''))\<close>
  let ?s = \<open>js ''[{"start":0,"end":1}]''\<close>
  let ?e8 = \<open>[JObj [(js ''contentZh'', JStr (js ''I'')), (js ''furigana'', JStr ?s)]]\<close>
  let ?ca = \<open>Some (js ''{"lines":[{"contentZh":"x","furigana":[{"start":0,"end":1}]}]}'')\<close>
  let ?f = \<open>JArr [JObj [(js ''start'', JNum 0), (js ''end'', JNum 1)]]\<close>
  let ?ea = \<open>[JObj [(js ''contentZh'', JStr (js ''x'')), (js ''furigana'', ?f)]]\<close>
  let ?c = \<open>Some (js ''{"furigana":[{"start":3,"end":9}]}'')\<close>
  have b: "8 mod batchSize = 0" "8 < length nine_lines" "0 mod batchSize = 0" "0 < length [js ''ab'']"
    by (simp_all add: batchSize_def nine_lines_def)
  have len0: "length (batch_results eight_then_span nine_lines 0) = batchSize"
    by (simp add: parse_eval eight_then_span_def eight_entries_def nine_lines_def json_eval)
  have al: "\<forall>k<8. k mod batchSize = 0 \<longrightarrow> length (batch_results eight_then_span nine_lines k) = batchSize"
  proof (intro allI impI)
    fix k :: nat
    assume "k < 8" and "k mod batchSize = 0"
    then have "k = 0" by (simp add: batchSize_def)
    then show "length (batch_results eight_then_span nine_lines k) = batchSize"
      using len0 by simp
  qed
  have len0': "length (batch_results second_batch_not_array nine_lines 0) = batchSize"
    by (simp add: parse_eval second_batch_not_array_def eight_entries_def nine_lines_def json_eval)
  have al': "\<forall>k<8. k mod batchSize = 0 \<longrightarrow> length (batch_results second_batch_not_array nine_lines k) = batchSize"
  proof (intro allI impI)
    fix k :: nat
    assume "k < 8" and "k mod batchSize = 0"
    then have "k = 0" by (simp add: batchSize_def)
    then show "length (batch_results second_batch_not_array nine_lines k) = batchSize"
      using len0' by simp
  qed
  have al0: "\<forall>k<0. k mod batchSize = 0 \<longrightarrow> length (batch_results array_furigana [js ''ab''] k) = batchSize"
    by simp
  have s8: "eight_then_span 8 (slice nine_lines 8 (8 + batchSize)) = Completion ?c8"
    by (simp add: eight_then_span_def)
  have g8: "get_prop (extractJSON (content_text ?c8)) (js ''lines'') = Some (JArr ?e8)"
    by (simp add: escq_def json_eval)
  have j8: "0 < length ?e8" "8 + 0 < (9::nat)"
    by simp_all
  have f8: "get_prop (?e8 ! 0) (js ''furigana'') = Some (JStr ?s)"
    by simp
  have hyp1: "8 mod batchSize = 0 \<and> 8 < length nine_lines
      \<and> (\<forall>k<8. k mod batchSize = 0 \<longrightarrow> length (batch_results eight_then_span nine_lines k) = batchSize)
      \<and> eight_then_span 8 (slice nine_lines 8 (8 + batchSize)) = Completion ?c8
      \<and> get_prop (extractJSON (content_text ?c8)) (js ''lines'') = Some (JArr ?e8)
      \<and> 0 < length ?e8 \<and> 8 + 0 < (9::nat)
      \<and> get_prop (?e8 ! 0) (js ''furigana'') = Some (JStr ?s)"
    by (intro conjI) (rule b al s8 g8 j8 f8)+
  have "import_line_updates ?ts (parseLyrics eight_then_span nine_lines) 9 ! (8 + 0)
          = Some \<lparr>contentZh = get_prop (?e8 ! 0) (js ''contentZh''),
                   furigana = (if ?s \<noteq> [] \<and> ?s \<noteq> js ''[]'' then JSON_parse ?s else None)\<rparr>"
    using furigana_stored_as_returned
      [where i = 8 and lyrics = nine_lines and service = eight_then_span and content = ?c8
         and entries = ?e8 and j = 0 and n = 9 and s = ?s and toString = ?ts, THEN conjunct1] hyp1
    by (rule mp)
  then have c1: "import_line_updates ?ts (parseLyrics eight_then_span nine_lines) 9 ! 8
       = Some \<lparr>contentZh = Some (JStr (js ''I'')),
                furigana = Some (JArr [JObj [(js ''start'', JNum 0), (js ''end'', JNum 1)]])\<rparr>"
    by (simp add: json_eval)
  have sa: "array_furigana 0 (slice [js ''ab''] 0 (0 + batchSize)) = Completion ?ca"
    by (simp add: array_furigana_def)
  have ga: "get_prop (extractJSON (content_text ?ca)) (js ''lines'') = Some (JArr ?ea)"
    by (simp add: json_eval)
  have ja: "0 < length ?ea" "0 + 0 < (1::nat)"
    by simp_all
  have fa: "get_prop (?ea ! 0) (js ''furigana'') = Some ?f" "\<forall>t. ?f \<noteq> JStr t"
    by simp_all
  have hyp2: "0 mod batchSize = 0 \<and> 0 < length [js ''ab'']
      \<and> (\<forall>k<0. k mod batchSize = 0 \<longrightarrow> length (batch_results array_furigana [js ''ab''] k) = batchSize)
      \<and> array_furigana 0 (slice [js ''ab''] 0 (0 + batchSize)) = Completion ?ca
      \<and> get_prop (extractJSON (content_text ?ca)) (js ''lines'') = Some (JArr ?ea)
      \<and> 0 < length ?ea \<and> 0 + 0 < (1::nat)
      \<and> get_prop (?ea ! 0) (js ''furigana'') = Some ?f \<and> (\<forall>t. ?f \<noteq> JStr t)"
    by (intro conjI) (rule b al0 sa ga ja fa)+
  have "import_line_updates ?ts (parseLyrics array_furigana [js ''ab'']) 1 ! (0 + 0)
          = Some \<lparr>contentZh = get_prop (?ea ! 0) (js ''contentZh''),
                   furigana = (if truthy ?f then JSON_parse (?ts ?f) else None)\<rparr>"
    using furigana_stored_as_returned
      [where i = 0 and lyrics = "[js ''ab'']" and service = array_furigana and content = ?ca
         and entries = ?ea and j = 0 and n = 1 and f = ?f and toString = ?ts,
       THEN conjunct2, THEN conjunct1] hyp2
    by (rule mp)
  then have c2: "import_line_updates ?ts (parseLyrics array_furigana [js ''ab'']) 1 ! 0
       = Some \<lparr>contentZh = Some (JStr (js ''x'')), furigana = None\<rparr>"
    by (simp add: json_eval)
  have i8: "isl (parseLyricsBatch (second_batch_not_array 8) (slice nine_lines 8 (8 + batchSize)) 8)"
    by (simp add: batchSize_def nine_lines_def parseLyricsBatch_def second_batch_not_array_def json_eval)
  have j3: "(0::nat) < batchSize" "8 + 0 < length nine_lines" "8 + 0 < (9::nat)"
    by (simp_all add: batchSize_def nine_lines_def)
  have hyp3: "8 mod batchSize = 0 \<and> 8 < length nine_lines
      \<and> (\<forall>k<8. k mod batchSize = 0 \<longrightarrow> length (batch_results second_batch_not_array nine_lines k) = batchSize)
      \<and> isl (parseLyricsBatch (second_batch_not_array 8) (slice nine_lines 8 (8 + batchSize)) 8)
      \<and> 0 < batchSize \<and> 8 + 0 < length nine_lines \<and> 8 + 0 < (9::nat)"
    by (intro conjI) (rule b al' i8 j3)+
  have "import_line_updates ?ts (parseLyrics second_batch_not_array nine_lines) 9 ! (8 + 0)
          = Some \<lparr>contentZh = Some (JStr []), furigana = None\<rparr>"
    using furigana_stored_as_returned
      [where i = 8 and lyrics = nine_lines and service = second_batch_not_array and j = 0 and n = 9
         and toString = ?ts, THEN conjunct2, THEN conjunct2, THEN conjunct1] hyp3
    by (rule mp)
  then have c3: "import_line_updates ?ts (parseLyrics second_batch_not_array nine_lines) 9 ! 8
          = Some \<lparr>contentZh = Some (JStr []), furigana = None\<rparr>"
    by simp
  have h4: \<open>truthy (extractJSON (content_text ?c))
      \<and> get_prop (extractJSON (content_text ?c)) (js ''furigana'')
          = Some (JArr [JObj [(js ''start'', JNum 3), (js ''end'', JNum 9)]])\<close>
    by (simp add: json_eval)
  have c4: \<open>\<exists>r. parseSingleLine (Completion ?c) = Inr r
         \<and> sl_furigana r = JArr [JObj [(js ''start'', JNum 3), (js ''end'', JNum 9)]]\<close>
    using furigana_stored_as_returned
      [where content = ?c and spans = "[JObj [(js ''start'', JNum 3), (js ''end'', JNum 9)]]",
       THEN conjunct2, THEN conjunct2, THEN conjunct2] h4
    by (rule mp)
  show ?thesis
    by (intro conjI) (rule b len0 c1 c2 len0' i8 c3 h4 [THEN conjunct1] c4)+
qed

end
